theory Spec2Isabelle
  imports Main "HOL-Library.Word"
begin

section \<open>The SLEPc eigensolver wrapper of linalg/slepc.cpp\<close>

text \<open>
  The class \<open>SlepcEigenSolver\<close> drives an external eigenvalue engine (SLEPc's EPS object)
  through a sequence of library calls. The engine is not part of the source: it is a
  parameter of the model (the record \<open>engine\<close> below), and every call the wrapper makes is
  appended to a log, so that statements about what is pushed to the engine, in which order
  and how often are statements about that log. A non-zero error code of a call ends the
  process (the macros \<open>PCHKERRQ\<close> and \<open>CCHKERRQ\<close>), which the model returns as \<open>Inl\<close>.
\<close>

subsection \<open>Values\<close>

type_synonym addr = nat
  \<comment> \<open>the identity of an object or of an array\<close>

type_synonym double = "64 word"
  \<comment> \<open>a \<open>double\<close> as its 64 bits: the wrapper stores and forwards such values, it never
      computes with them\<close>

type_synonym c_int = "32 word"
  \<comment> \<open>\<open>int\<close> and \<open>unsigned int\<close> arguments, likewise only stored and forwarded\<close>

type_synonym MPI_Comm = nat

type_synonym PetscErrorCode = int

text \<open>
  An operator argument is a reference to an object of a class derived from \<open>Operator\<close>.
  The wrapper tells three dynamic types apart: the canonical \<open>PetscParMatrix\<close>, the
  intermediate \<open>HypreParMatrix\<close>, and anything else.
\<close>

datatype Operator =
    PetscParMatrix addr
  | HypreParMatrix addr
  | OtherOperator addr

fun dynamic_cast_PetscParMatrix :: "Operator \<Rightarrow> addr option" where
  "dynamic_cast_PetscParMatrix (PetscParMatrix a) = Some a"
| "dynamic_cast_PetscParMatrix (HypreParMatrix a) = None"
| "dynamic_cast_PetscParMatrix (OtherOperator a) = None"

fun dynamic_cast_HypreParMatrix :: "Operator \<Rightarrow> addr option" where
  "dynamic_cast_HypreParMatrix (PetscParMatrix a) = None"
| "dynamic_cast_HypreParMatrix (HypreParMatrix a) = Some a"
| "dynamic_cast_HypreParMatrix (OtherOperator a) = None"

text \<open>
  The cast of a \<open>const Operator &\<close> to \<open>const Operator *\<close> is the address of the object
  itself, whatever its dynamic type.
\<close>

fun dynamic_cast_Operator :: "Operator \<Rightarrow> addr option" where
  "dynamic_cast_Operator (PetscParMatrix a) = Some a"
| "dynamic_cast_Operator (HypreParMatrix a) = Some a"
| "dynamic_cast_Operator (OtherOperator a) = Some a"

datatype type_id = PETSC_MATSHELL | PETSC_MATAIJ

text \<open>
  The enumerations \<open>SlepcEigenSolver::Which\<close> and
  \<open>SlepcEigenSolver::SpectralTransformation\<close> are declared in a header that is not part of
  the source; their enumerators are the case labels of the two \<open>switch\<close> statements. A
  value of a C++ enumeration type need not be one of its enumerators: the last constructor
  of each datatype stands for every such value, and carries it.
\<close>

datatype Which =
    LARGEST_MAGNITUDE
  | SMALLEST_MAGNITUDE
  | LARGEST_REAL
  | SMALLEST_REAL
  | LARGEST_IMAGINARY
  | SMALLEST_IMAGINARY
  | TARGET_MAGNITUDE
  | TARGET_REAL
  | Which_unlisted c_int

datatype SpectralTransformation =
    SHIFT
  | SHIFT_INVERT
  | SpectralTransformation_unlisted c_int

datatype EPSWhich =
    EPS_LARGEST_MAGNITUDE
  | EPS_SMALLEST_MAGNITUDE
  | EPS_LARGEST_REAL
  | EPS_SMALLEST_REAL
  | EPS_LARGEST_IMAGINARY
  | EPS_SMALLEST_IMAGINARY
  | EPS_TARGET_MAGNITUDE
  | EPS_TARGET_REAL

datatype STType = STSHIFT | STSINVERT

subsection \<open>The library calls and the engine\<close>

text \<open>
  One constructor for each call that leaves the wrapper, with the arguments it passes.
  Constructors and destructors of the helper classes \<open>PetscParMatrix\<close> and
  \<open>PetscParVector\<close> are calls too: they are defined elsewhere and work on the library.
\<close>

datatype call =
    EPSCreate MPI_Comm
  | EPSSetOptionsPrefix string
  | PetscObjectGetComm
  | EPSDestroy
  | new_PetscParMatrix_Hypre addr addr type_id
      \<comment> \<open>the new object, \<open>hA\<close>, the type\<close>
  | new_PetscParMatrix_Operator addr MPI_Comm addr type_id
      \<comment> \<open>the new object, the communicator, \<open>oA\<close>, the type\<close>
  | delete_PetscParMatrix addr
  | new_PetscParVector addr "addr option"
      \<comment> \<open>the new object, the matrix \<open>pA\<close> whose layout it takes\<close>
  | delete_PetscParVector addr
  | PlaceArray addr addr
      \<comment> \<open>the vector, the array\<close>
  | ResetArray addr
  | EPSSetOperators addr "addr option"
  | EPSSetTolerances double c_int
  | EPSSetDimensions c_int
  | EPSSetFromOptions
  | EPSSolve
  | EPSGetEigenvalue c_int
  | EPSGetOperators
  | EPSGetEigenvector c_int addr "addr option"
  | EPSGetConverged
  | EPSSetWhichEigenpairs EPSWhich
  | EPSSetTarget double
  | EPSGetST
  | STSetType STType

text \<open>
  The engine: what the library answers to a call, given the calls made before. Nothing is
  assumed about it. \<open>PETSC_DEFAULT\<close> is a macro of the library; its value as a \<open>double\<close>
  and as an \<open>int\<close> are parameters as well.
\<close>

record engine =
  ierr_of :: "call list \<Rightarrow> call \<Rightarrow> PetscErrorCode"
  operators_of :: "call list \<Rightarrow> addr option"
    \<comment> \<open>the matrix \<open>EPSGetOperators\<close> stores in \<open>pA\<close>\<close>
  eigenvalue_of :: "call list \<Rightarrow> c_int \<Rightarrow> double \<times> double"
  eigenvector_of :: "call list \<Rightarrow> c_int \<Rightarrow> double list \<times> double list"
    \<comment> \<open>the local entries \<open>EPSGetEigenvector\<close> stores in its two vectors\<close>
  converged_of :: "call list \<Rightarrow> c_int"
  PETSC_DEFAULT_double :: double
  PETSC_DEFAULT_int :: c_int

subsection \<open>The state\<close>

text \<open>
  A \<open>PetscParVector\<close> created with \<open>allocate = false\<close> has a layout and no storage of its
  own; \<open>array\<close> is the caller's array placed in it, if any.
\<close>

record PetscParVector =
  layout :: "addr option"
  array :: "addr option"

text \<open>
  The fields of the solver object (\<open>tol\<close>, \<open>max_its\<close> and \<open>wrap\<close> are \<open>_tol\<close>,
  \<open>_max_its\<close> and \<open>_wrap\<close> in the source), followed by the part of the process state the
  solver works on: the matrices and vectors it has allocated and not deleted, the next free
  object identity, the contents of the callers' arrays, and the log of calls.
\<close>

record world =
  clcustom :: bool
  tol :: double
  max_its :: c_int
  wrap :: bool
  VR :: "addr option"
  VC :: "addr option"
  operatorset :: bool
  eps :: "MPI_Comm option"
    \<comment> \<open>the engine context, with the communicator it was created on; \<open>None\<close> is \<open>NULL\<close>\<close>
  matrices :: "addr set"
  vectors :: "addr \<rightharpoonup> PetscParVector"
  next_addr :: addr
  mem :: "addr \<Rightarrow> double list"
  calls :: "call list"

datatype abort =
    MFEM_ABORT string
  | MFEM_VERIFY string
  | Memory_fault
      \<comment> \<open>a write through a vector with no array, or beyond the end of the array\<close>

definition and_then :: "abort + 'a \<Rightarrow> ('a \<Rightarrow> abort + 'b) \<Rightarrow> abort + 'b" where
  "and_then m f = (case m of Inl e \<Rightarrow> Inl e | Inr x \<Rightarrow> f x)"

text \<open>
  \<open>ierr = f(...); PCHKERRQ(eps, ierr);\<close> The call is made; a non-zero code aborts.
  \<open>CCHKERRQ\<close> differs only in the communicator the stack trace is printed on.
\<close>

definition PCHKERRQ :: "engine \<Rightarrow> call \<Rightarrow> world \<Rightarrow> abort + world" where
  "PCHKERRQ E c w =
     (if ierr_of E (calls w) c \<noteq> 0
      then Inl (MFEM_ABORT ''Error in SLEPc. See stacktrace above.'')
      else Inr (w\<lparr>calls := calls w @ [c]\<rparr>))"

definition CCHKERRQ :: "engine \<Rightarrow> call \<Rightarrow> world \<Rightarrow> abort + world" where
  "CCHKERRQ E c w =
     (if ierr_of E (calls w) c \<noteq> 0
      then Inl (MFEM_ABORT ''Error in SLEPc. See stacktrace above.'')
      else Inr (w\<lparr>calls := calls w @ [c]\<rparr>))"

definition PetscObjectComm :: "world \<Rightarrow> MPI_Comm" where
  "PetscObjectComm w = (case eps w of Some comm \<Rightarrow> comm | None \<Rightarrow> 0)"

subsection \<open>Objects of the helper classes\<close>

text \<open>
  Modelled from the spec: the constructors of \<open>PetscParMatrix\<close> are defined in a file that
  is not part of the source. Following the spec, a constructor synthesizes a new canonical
  handle, which stays allocated until it is released; it works on the library and may
  abort there. \<open>ctor\<close> is the constructor call, given the new object.
\<close>

definition new_PetscParMatrix ::
  "engine \<Rightarrow> (addr \<Rightarrow> call) \<Rightarrow> world \<Rightarrow> abort + addr \<times> world" where
  "new_PetscParMatrix E ctor w =
     (let p = next_addr w in
      and_then (PCHKERRQ E (ctor p) w) (\<lambda>w.
      Inr (p, w\<lparr>next_addr := Suc p, matrices := insert p (matrices w)\<rparr>)))"

text \<open>
  Modelled from the spec: the constructor of \<open>PetscParVector\<close> is not part of the source.
  Following the spec, \<open>new PetscParVector(pA, true, false)\<close> allocates a view with the
  layout of \<open>pA\<close> and no storage bound to it.
\<close>

definition new_PetscParVector_obj ::
  "engine \<Rightarrow> addr option \<Rightarrow> world \<Rightarrow> abort + addr \<times> world" where
  "new_PetscParVector_obj E pA w =
     (let v = next_addr w in
      and_then (PCHKERRQ E (new_PetscParVector v pA) w) (\<lambda>w.
      Inr (v, w\<lparr>next_addr := Suc v,
                 vectors := (vectors w)(v \<mapsto> \<lparr>layout = pA, array = None\<rparr>)\<rparr>)))"

text \<open>
  Modelled from the spec: the destructor of \<open>PetscParVector\<close> is not part of the source.
  \<open>delete V;\<close> destroys the view and frees it; for \<open>V = NULL\<close> it does nothing.
\<close>

definition delete_vector :: "engine \<Rightarrow> addr option \<Rightarrow> world \<Rightarrow> abort + world" where
  "delete_vector E V w =
     (case V of
        None \<Rightarrow> Inr w
      | Some v \<Rightarrow>
          and_then (PCHKERRQ E (delete_PetscParVector v) w) (\<lambda>w.
          Inr (w\<lparr>vectors := (vectors w)(v := None)\<rparr>)))"

text \<open>
  Modelled from the spec: the method \<open>PetscParVector::PlaceArray\<close> is not part of the
  source. Following the spec, it binds the view's backing storage to the caller's array.
\<close>

definition VecPlaceArray :: "engine \<Rightarrow> addr \<Rightarrow> addr \<Rightarrow> world \<Rightarrow> abort + world" where
  "VecPlaceArray E v a w =
     and_then (PCHKERRQ E (PlaceArray v a) w) (\<lambda>w.
     Inr (w\<lparr>vectors := (vectors w)(v := map_option (\<lambda>x. x\<lparr>array := Some a\<rparr>) (vectors w v))\<rparr>))"

text \<open>
  Modelled from the spec: the method \<open>PetscParVector::ResetArray\<close> is not part of the
  source. Following the spec, it detaches the view from the array, restoring it to its
  unbound state.
\<close>

definition VecResetArray :: "engine \<Rightarrow> addr \<Rightarrow> world \<Rightarrow> abort + world" where
  "VecResetArray E v w =
     and_then (PCHKERRQ E (ResetArray v) w) (\<lambda>w.
     Inr (w\<lparr>vectors := (vectors w)(v := map_option (\<lambda>x. x\<lparr>array := None\<rparr>) (vectors w v))\<rparr>))"

text \<open>
  The engine stores the entries \<open>xs\<close> through the vector \<open>v\<close>: they overwrite the start of
  the array placed in it. Without an array, or with one that is too short, the store is a
  memory fault.
\<close>

definition store_through :: "addr \<Rightarrow> double list \<Rightarrow> world \<Rightarrow> abort + world" where
  "store_through v xs w =
     (case vectors w v of
        None \<Rightarrow> Inl Memory_fault
      | Some x \<Rightarrow>
          (case array x of
             None \<Rightarrow> Inl Memory_fault
           | Some a \<Rightarrow>
               if length xs \<le> length (mem w a)
               then Inr (w\<lparr>mem := (mem w)(a := xs @ drop (length xs) (mem w a))\<rparr>)
               else Inl Memory_fault))"

subsection \<open>Construction and destruction\<close>

definition SlepcEigenSolver ::
  "engine \<Rightarrow> MPI_Comm \<Rightarrow> string \<Rightarrow> bool \<Rightarrow> world \<Rightarrow> abort + world" where
  "SlepcEigenSolver E comm prefix wrap_arg w =
     (let w = w\<lparr>clcustom := False,
                tol := PETSC_DEFAULT_double E,
                max_its := PETSC_DEFAULT_int E,
                wrap := wrap_arg,
                VR := None,
                VC := None,
                operatorset := False\<rparr> in
      and_then (CCHKERRQ E (EPSCreate comm) w) (\<lambda>w.
      let w = w\<lparr>eps := Some comm\<rparr> in
      PCHKERRQ E (EPSSetOptionsPrefix prefix) w))"

definition destructor :: "engine \<Rightarrow> world \<Rightarrow> abort + world" where
  "destructor E w =
     and_then (PCHKERRQ E PetscObjectGetComm w) (\<lambda>w.
     and_then (CCHKERRQ E EPSDestroy w) (\<lambda>w.
     Inr (w\<lparr>eps := None\<rparr>)))"

subsection \<open>Registering operators\<close>

text \<open>
  The block that turns an operator argument into a \<open>PetscParMatrix\<close> pointer and a
  \<open>delete\<close> flag. It stands once in \<open>SetOperator\<close> and twice in \<open>SetOperators\<close>, with the
  same text; the \<open>MFEM_VERIFY\<close> after it is in the callers below.
\<close>

definition to_PetscParMatrix ::
  "engine \<Rightarrow> Operator \<Rightarrow> world \<Rightarrow> abort + addr option \<times> bool \<times> world" where
  "to_PetscParMatrix E op w =
     (let pA = dynamic_cast_PetscParMatrix op;
          hA = dynamic_cast_HypreParMatrix op;
          oA = dynamic_cast_Operator op;
          delete_pA = False;
          tid = (if wrap w then PETSC_MATSHELL else PETSC_MATAIJ) in
      if pA = None then
        (case hA of
           Some h \<Rightarrow>
             and_then (new_PetscParMatrix E (\<lambda>p. new_PetscParMatrix_Hypre p h tid) w)
               (\<lambda>(p, w). Inr (Some p, True, w))
         | None \<Rightarrow>
             (case oA of
                Some g \<Rightarrow>
                  and_then
                    (new_PetscParMatrix E
                       (\<lambda>p. new_PetscParMatrix_Operator p (PetscObjectComm w) g tid) w)
                    (\<lambda>(p, w). Inr (Some p, True, w))
              | None \<Rightarrow> Inr (pA, delete_pA, w)))
      else Inr (pA, delete_pA, w))"

text \<open>
  \<open>if (operatorset) { delete VR; delete VC; VR = VC = NULL; }\<close>
\<close>

definition discard_views :: "engine \<Rightarrow> world \<Rightarrow> abort + world" where
  "discard_views E w =
     (if operatorset w then
        and_then (delete_vector E (VR w) w) (\<lambda>w.
        and_then (delete_vector E (VC w) w) (\<lambda>w.
        Inr (w\<lparr>VR := None, VC := None\<rparr>)))
      else Inr w)"

text \<open>
  \<open>if (delete_pA) {delete_pA;}\<close> The statement in the braces is the expression
  \<open>delete_pA\<close>, a \<open>bool\<close> that is evaluated and dropped: nothing is deleted.
\<close>

definition if_delete :: "bool \<Rightarrow> world \<Rightarrow> world" where
  "if_delete delete_pA w = (if delete_pA then (let unused = delete_pA in w) else w)"

definition SetOperator :: "engine \<Rightarrow> Operator \<Rightarrow> world \<Rightarrow> abort + world" where
  "SetOperator E op w =
     and_then (to_PetscParMatrix E op w) (\<lambda>(pA, delete_pA, w).
     case pA of
       None \<Rightarrow> Inl (MFEM_VERIFY ''Unsupported operation!'')
     | Some A \<Rightarrow>
         and_then (discard_views E w) (\<lambda>w.
         and_then (PCHKERRQ E (EPSSetOperators A None) w) (\<lambda>w.
         let w = w\<lparr>operatorset := True\<rparr> in
         Inr (if_delete delete_pA w))))"

definition SetOperators :: "engine \<Rightarrow> Operator \<Rightarrow> Operator \<Rightarrow> world \<Rightarrow> abort + world" where
  "SetOperators E op opB w =
     and_then (to_PetscParMatrix E op w) (\<lambda>(pA, delete_pA, w).
     case pA of
       None \<Rightarrow> Inl (MFEM_VERIFY ''Unsupported Operation!'')
     | Some A \<Rightarrow>
         and_then (to_PetscParMatrix E opB w) (\<lambda>(pB, delete_pB, w).
         case pB of
           None \<Rightarrow> Inl (MFEM_VERIFY ''Unsupported Operation!'')
         | Some B \<Rightarrow>
             and_then (discard_views E w) (\<lambda>w.
             let w = w\<lparr>operatorset := True\<rparr> in
             and_then (PCHKERRQ E (EPSSetOperators A (Some B)) w) (\<lambda>w.
             Inr (if_delete delete_pB (if_delete delete_pA w))))))"

subsection \<open>Configuration\<close>

definition SetTol :: "engine \<Rightarrow> double \<Rightarrow> world \<Rightarrow> abort + world" where
  "SetTol E tol_arg w =
     (let w = w\<lparr>tol := tol_arg\<rparr> in
      PCHKERRQ E (EPSSetTolerances (tol w) (max_its w)) w)"

definition SetMaxIter :: "engine \<Rightarrow> c_int \<Rightarrow> world \<Rightarrow> abort + world" where
  "SetMaxIter E max_its_arg w =
     (let w = w\<lparr>max_its := max_its_arg\<rparr> in
      PCHKERRQ E (EPSSetTolerances (tol w) (max_its w)) w)"

definition SetNumModes :: "engine \<Rightarrow> c_int \<Rightarrow> world \<Rightarrow> abort + world" where
  "SetNumModes E num_eigs w = PCHKERRQ E (EPSSetDimensions num_eigs) w"

definition SetWhichEigenpairs :: "engine \<Rightarrow> Which \<Rightarrow> world \<Rightarrow> abort + world" where
  "SetWhichEigenpairs E which w =
     (case which of
        LARGEST_MAGNITUDE \<Rightarrow> PCHKERRQ E (EPSSetWhichEigenpairs EPS_LARGEST_MAGNITUDE) w
      | SMALLEST_MAGNITUDE \<Rightarrow> PCHKERRQ E (EPSSetWhichEigenpairs EPS_SMALLEST_MAGNITUDE) w
      | LARGEST_REAL \<Rightarrow> PCHKERRQ E (EPSSetWhichEigenpairs EPS_LARGEST_REAL) w
      | SMALLEST_REAL \<Rightarrow> PCHKERRQ E (EPSSetWhichEigenpairs EPS_SMALLEST_REAL) w
      | LARGEST_IMAGINARY \<Rightarrow> PCHKERRQ E (EPSSetWhichEigenpairs EPS_LARGEST_IMAGINARY) w
      | SMALLEST_IMAGINARY \<Rightarrow> PCHKERRQ E (EPSSetWhichEigenpairs EPS_SMALLEST_IMAGINARY) w
      | TARGET_MAGNITUDE \<Rightarrow> PCHKERRQ E (EPSSetWhichEigenpairs EPS_TARGET_MAGNITUDE) w
      | TARGET_REAL \<Rightarrow> PCHKERRQ E (EPSSetWhichEigenpairs EPS_TARGET_REAL) w
      | Which_unlisted n \<Rightarrow> Inl (MFEM_ABORT ''Which eigenpair not implemented!''))"

definition SetTarget :: "engine \<Rightarrow> double \<Rightarrow> world \<Rightarrow> abort + world" where
  "SetTarget E target w = PCHKERRQ E (EPSSetTarget target) w"

definition SetSpectralTransformation ::
  "engine \<Rightarrow> SpectralTransformation \<Rightarrow> world \<Rightarrow> abort + world" where
  "SetSpectralTransformation E transformation w =
     and_then (PCHKERRQ E EPSGetST w) (\<lambda>w.
     case transformation of
       SHIFT \<Rightarrow> PCHKERRQ E (STSetType STSHIFT) w
     | SHIFT_INVERT \<Rightarrow> PCHKERRQ E (STSetType STSINVERT) w
     | SpectralTransformation_unlisted n \<Rightarrow>
         Inl (MFEM_ABORT ''Spectral transformation not implemented!''))"

subsection \<open>Solving\<close>

definition Customize :: "engine \<Rightarrow> bool \<Rightarrow> world \<Rightarrow> abort + world" where
  "Customize E customize w =
     (let w = (if \<not> customize then w\<lparr>clcustom := True\<rparr> else w) in
      and_then (if \<not> clcustom w then PCHKERRQ E EPSSetFromOptions w else Inr w) (\<lambda>w.
      Inr (w\<lparr>clcustom := True\<rparr>)))"

definition Solve :: "engine \<Rightarrow> world \<Rightarrow> abort + world" where
  "Solve E w =
     and_then (Customize E True w) (\<lambda>w.
     PCHKERRQ E EPSSolve w)"

subsection \<open>Retrieving eigenpairs\<close>

definition GetEigenvalue :: "engine \<Rightarrow> c_int \<Rightarrow> world \<Rightarrow> abort + double \<times> world" where
  "GetEigenvalue E i w =
     and_then (PCHKERRQ E (EPSGetEigenvalue i) w) (\<lambda>w'.
     Inr (fst (eigenvalue_of E (calls w) i), w'))"

definition GetEigenvalue2 ::
  "engine \<Rightarrow> c_int \<Rightarrow> world \<Rightarrow> abort + (double \<times> double) \<times> world" where
  "GetEigenvalue2 E i w =
     and_then (PCHKERRQ E (EPSGetEigenvalue i) w) (\<lambda>w'.
     Inr (eigenvalue_of E (calls w) i, w'))"

text \<open>
  \<open>Mat pA = NULL; ierr = EPSGetOperators(eps, &pA, NULL); PCHKERRQ(eps,ierr);\<close>
\<close>

definition get_operators :: "engine \<Rightarrow> world \<Rightarrow> abort + addr option \<times> world" where
  "get_operators E w =
     and_then (PCHKERRQ E EPSGetOperators w) (\<lambda>w'.
     Inr (operators_of E (calls w), w'))"

text \<open>
  \<open>if (!V) { V = new PetscParVector(pA, true, false); }\<close>, returning the vector as well.
\<close>

definition ensure_view ::
  "engine \<Rightarrow> addr option \<Rightarrow> addr option \<Rightarrow> world \<Rightarrow> abort + addr \<times> world" where
  "ensure_view E V pA w =
     (case V of
        None \<Rightarrow> new_PetscParVector_obj E pA w
      | Some v \<Rightarrow> Inr (v, w))"

text \<open>
  The one-buffer overload; \<open>vr\<close> is \<open>vr.GetData()\<close>, the array of the caller's vector.
\<close>

definition GetEigenvector :: "engine \<Rightarrow> c_int \<Rightarrow> addr \<Rightarrow> world \<Rightarrow> abort + world" where
  "GetEigenvector E i vr w =
     and_then
       (if VR w = None then
          and_then (get_operators E w) (\<lambda>(pA, w).
          and_then (new_PetscParVector_obj E pA w) (\<lambda>(v, w).
          Inr (v, w\<lparr>VR := Some v\<rparr>)))
        else Inr (the (VR w), w)) (\<lambda>(v, w).
     and_then (VecPlaceArray E v vr w) (\<lambda>w.
     and_then (PCHKERRQ E (EPSGetEigenvector i v None) w) (\<lambda>w'.
     and_then (store_through v (fst (eigenvector_of E (calls w) i)) w') (\<lambda>w.
     VecResetArray E v w))))"

definition GetEigenvector2 ::
  "engine \<Rightarrow> c_int \<Rightarrow> addr \<Rightarrow> addr \<Rightarrow> world \<Rightarrow> abort + world" where
  "GetEigenvector2 E i vr vc w =
     and_then
       (if VR w = None \<or> VC w = None then
          and_then (get_operators E w) (\<lambda>(pA, w).
          and_then (ensure_view E (VR w) pA w) (\<lambda>(r, w).
          let w = w\<lparr>VR := Some r\<rparr> in
          and_then (ensure_view E (VC w) pA w) (\<lambda>(c, w).
          Inr (r, c, w\<lparr>VC := Some c\<rparr>))))
        else Inr (the (VR w), the (VC w), w)) (\<lambda>(r, c, w).
     and_then (VecPlaceArray E r vr w) (\<lambda>w.
     and_then (VecPlaceArray E c vc w) (\<lambda>w.
     and_then (PCHKERRQ E (EPSGetEigenvector i r (Some c)) w) (\<lambda>w'.
     and_then (store_through r (fst (eigenvector_of E (calls w) i)) w') (\<lambda>w'.
     and_then (store_through c (snd (eigenvector_of E (calls w) i)) w') (\<lambda>w.
     and_then (VecResetArray E r w) (\<lambda>w.
     VecResetArray E c w)))))))"

definition GetNumConverged :: "engine \<Rightarrow> world \<Rightarrow> abort + c_int \<times> world" where
  "GetNumConverged E w =
     and_then (PCHKERRQ E EPSGetConverged w) (\<lambda>w'.
     Inr (converged_of E (calls w), w'))"

subsection \<open>Sequences of method calls\<close>

datatype method_call =
    Call_SetOperator Operator
  | Call_SetOperators Operator Operator
  | Call_SetTol double
  | Call_SetMaxIter c_int
  | Call_SetNumModes c_int
  | Call_Solve
  | Call_Customize bool
  | Call_GetEigenvalue c_int
  | Call_GetEigenvalue2 c_int
  | Call_GetEigenvector c_int addr
  | Call_GetEigenvector2 c_int addr addr
  | Call_GetNumConverged
  | Call_SetWhichEigenpairs Which
  | Call_SetTarget double
  | Call_SetSpectralTransformation SpectralTransformation

fun invoke :: "engine \<Rightarrow> method_call \<Rightarrow> world \<Rightarrow> abort + world" where
  "invoke E (Call_SetOperator op) w = SetOperator E op w"
| "invoke E (Call_SetOperators op opB) w = SetOperators E op opB w"
| "invoke E (Call_SetTol x) w = SetTol E x w"
| "invoke E (Call_SetMaxIter n) w = SetMaxIter E n w"
| "invoke E (Call_SetNumModes n) w = SetNumModes E n w"
| "invoke E Call_Solve w = Solve E w"
| "invoke E (Call_Customize b) w = Customize E b w"
| "invoke E (Call_GetEigenvalue i) w = map_sum id snd (GetEigenvalue E i w)"
| "invoke E (Call_GetEigenvalue2 i) w = map_sum id snd (GetEigenvalue2 E i w)"
| "invoke E (Call_GetEigenvector i vr) w = GetEigenvector E i vr w"
| "invoke E (Call_GetEigenvector2 i vr vc) w = GetEigenvector2 E i vr vc w"
| "invoke E Call_GetNumConverged w = map_sum id snd (GetNumConverged E w)"
| "invoke E (Call_SetWhichEigenpairs which) w = SetWhichEigenpairs E which w"
| "invoke E (Call_SetTarget x) w = SetTarget E x w"
| "invoke E (Call_SetSpectralTransformation t) w = SetSpectralTransformation E t w"

fun run :: "engine \<Rightarrow> method_call list \<Rightarrow> world \<Rightarrow> abort + world" where
  "run E [] w = Inr w"
| "run E (m # ms) w = and_then (invoke E m w) (run E ms)"

text \<open>How often the options of the command line and of the options file were merged.\<close>

definition merges :: "world \<Rightarrow> nat" where
  "merges w = count_list (calls w) EPSSetFromOptions"

subsection \<open>Notions used in the statements\<close>

text \<open>The calls \<open>delete V;\<close> makes, and the vectors it leaves.\<close>

fun deletions :: "addr option \<Rightarrow> call list" where
  "deletions None = []"
| "deletions (Some v) = [delete_PetscParVector v]"

fun without ::
  "addr option \<Rightarrow> (addr \<rightharpoonup> PetscParVector) \<Rightarrow> (addr \<rightharpoonup> PetscParVector)" where
  "without None m = m"
| "without (Some v) m = m(v := None)"

text \<open>The tolerances the engine was given last, if any.\<close>

fun pushed_tolerances :: "call list \<Rightarrow> (double \<times> c_int) option" where
  "pushed_tolerances [] = None"
| "pushed_tolerances (c # cs) =
     (case pushed_tolerances cs of
        Some p \<Rightarrow> Some p
      | None \<Rightarrow> (case c of EPSSetTolerances t n \<Rightarrow> Some (t, n) | _ \<Rightarrow> None))"

text \<open>
  The engine's value for a selection criterion and for a spectral transformation;
  \<open>None\<close> for a value that is not an enumerator.
\<close>

fun EPS_which :: "Which \<Rightarrow> EPSWhich option" where
  "EPS_which LARGEST_MAGNITUDE = Some EPS_LARGEST_MAGNITUDE"
| "EPS_which SMALLEST_MAGNITUDE = Some EPS_SMALLEST_MAGNITUDE"
| "EPS_which LARGEST_REAL = Some EPS_LARGEST_REAL"
| "EPS_which SMALLEST_REAL = Some EPS_SMALLEST_REAL"
| "EPS_which LARGEST_IMAGINARY = Some EPS_LARGEST_IMAGINARY"
| "EPS_which SMALLEST_IMAGINARY = Some EPS_SMALLEST_IMAGINARY"
| "EPS_which TARGET_MAGNITUDE = Some EPS_TARGET_MAGNITUDE"
| "EPS_which TARGET_REAL = Some EPS_TARGET_REAL"
| "EPS_which (Which_unlisted n) = None"

fun ST_type :: "SpectralTransformation \<Rightarrow> STType option" where
  "ST_type SHIFT = Some STSHIFT"
| "ST_type SHIFT_INVERT = Some STSINVERT"
| "ST_type (SpectralTransformation_unlisted n) = None"

abbreviation engine_abort :: abort where
  "engine_abort \<equiv> MFEM_ABORT ''Error in SLEPc. See stacktrace above.''"

text \<open>
  The constructor call that the conversion block makes for an operator argument in a given
  state (none for a \<open>PetscParMatrix\<close>), and the state after a successful constructor call.
\<close>

fun ctor_call :: "world \<Rightarrow> Operator \<Rightarrow> call option" where
  "ctor_call w (PetscParMatrix a) = None"
| "ctor_call w (HypreParMatrix h) =
     Some (new_PetscParMatrix_Hypre (next_addr w) h
             (if wrap w then PETSC_MATSHELL else PETSC_MATAIJ))"
| "ctor_call w (OtherOperator g) =
     Some (new_PetscParMatrix_Operator (next_addr w) (PetscObjectComm w) g
             (if wrap w then PETSC_MATSHELL else PETSC_MATAIJ))"

definition allocated :: "world \<Rightarrow> call \<Rightarrow> world" where
  "allocated w c =
     w\<lparr>matrices := insert (next_addr w) (matrices w),
       next_addr := Suc (next_addr w),
       calls := calls w @ [c]\<rparr>"

text \<open>The matrices constructed and the matrices deleted in a log of calls, in order.\<close>

fun synthesized :: "call list \<Rightarrow> addr list" where
  "synthesized [] = []"
| "synthesized (c # cs) =
     (case c of
        new_PetscParMatrix_Hypre p h t \<Rightarrow> [p]
      | new_PetscParMatrix_Operator p comm g t \<Rightarrow> [p]
      | _ \<Rightarrow> []) @ synthesized cs"

fun released :: "call list \<Rightarrow> addr list" where
  "released [] = []"
| "released (c # cs) =
     (case c of delete_PetscParMatrix p \<Rightarrow> [p] | _ \<Rightarrow> []) @ released cs"

text \<open>
  The state after the conversion block has returned for an operator argument, the pointer
  it has returned, and the state after the cached views have been discarded.
\<close>

definition converted :: "world \<Rightarrow> Operator \<Rightarrow> world" where
  "converted w op = (case ctor_call w op of None \<Rightarrow> w | Some c \<Rightarrow> allocated w c)"

definition handle_of :: "world \<Rightarrow> Operator \<Rightarrow> addr" where
  "handle_of w op =
     (case dynamic_cast_PetscParMatrix op of Some a \<Rightarrow> a | None \<Rightarrow> next_addr w)"

definition discarded :: "world \<Rightarrow> world" where
  "discarded w =
     (if operatorset w
      then w\<lparr>VR := None, VC := None,
             vectors := without (VC w) (without (VR w) (vectors w)),
             calls := calls w @ deletions (VR w) @ deletions (VC w)\<rparr>
      else w)"

text \<open>The calls that register operators, and those that are a solve or a registration.\<close>

fun is_registration :: "method_call \<Rightarrow> bool" where
  "is_registration (Call_SetOperator op) = True"
| "is_registration (Call_SetOperators op opB) = True"
| "is_registration m = False"

fun solve_or_registration :: "method_call \<Rightarrow> bool" where
  "solve_or_registration Call_Solve = True"
| "solve_or_registration m = is_registration m"

text \<open>The calls that neither register operators nor retrieve an eigenvector.\<close>

fun keeps_views :: "method_call \<Rightarrow> bool" where
  "keeps_views (Call_SetOperator op) = False"
| "keeps_views (Call_SetOperators op opB) = False"
| "keeps_views (Call_GetEigenvector i vr) = False"
| "keeps_views (Call_GetEigenvector2 i vr vc) = False"
| "keeps_views m = True"

subsection \<open>A concrete engine and a concrete process state\<close>

text \<open>
  An engine that accepts every call, answers \<open>EPSGetOperators\<close> with the matrix registered
  last, and holds one eigenpair with two local entries.
\<close>

definition registered :: "call list \<Rightarrow> addr option" where
  "registered cs =
     foldl (\<lambda>r c. case c of EPSSetOperators A B \<Rightarrow> Some A | _ \<Rightarrow> r) None cs"

definition accepting :: engine where
  "accepting = \<lparr>ierr_of = (\<lambda>cs c. 0),
                operators_of = registered,
                eigenvalue_of = (\<lambda>cs i. (1, 0)),
                eigenvector_of = (\<lambda>cs i. ([3, 4], [0, 0])),
                converged_of = (\<lambda>cs. 1),
                PETSC_DEFAULT_double = 0xC000000000000000,
                PETSC_DEFAULT_int = - 2\<rparr>"

text \<open>A process that has made no call yet; every array of a caller has two entries.\<close>

definition empty_world :: world where
  "empty_world = \<lparr>clcustom = False, tol = 0, max_its = 0, wrap = False, VR = None, VC = None,
     operatorset = False, eps = None, matrices = {}, vectors = Map.empty, next_addr = 100,
     mem = (\<lambda>a. [0, 0]), calls = []\<rparr>"

text \<open>The state after the constructor has run in the empty process, and after a
  \<open>Customize(false)\<close> on it.\<close>

definition constructed :: world where
  "constructed =
     empty_world\<lparr>tol := 0xC000000000000000, max_its := - 2, eps := Some 0,
       calls := [EPSCreate 0, EPSSetOptionsPrefix ''eps_'']\<rparr>"

definition latched :: world where
  "latched = constructed\<lparr>clcustom := True\<rparr>"

text \<open>
  The state a run has returned. Then: a solver that has been given an operator, has solved
  and has handed out an eigenvector, so that both views exist; and the same solver after
  another operator has been registered.
\<close>

definition returned :: "abort + world \<Rightarrow> world" where
  "returned r = (case r of Inl e \<Rightarrow> empty_world | Inr w \<Rightarrow> w)"

definition retrieved :: world where
  "retrieved =
     returned (run accepting
       [Call_SetOperator (PetscParMatrix 7), Call_Solve, Call_GetEigenvector2 0 1 2]
       constructed)"

definition solved :: world where
  "solved =
     returned (run accepting [Call_SetOperator (PetscParMatrix 7), Call_Solve] constructed)"

definition first_retrieval :: world where
  "first_retrieval = returned (GetEigenvector accepting 0 1 solved)"

definition second_retrieval :: world where
  "second_retrieval = returned (GetEigenvector accepting 0 2 first_retrieval)"

definition reregistered :: world where
  "reregistered = returned (SetOperator accepting (HypreParMatrix 8) retrieved)"

definition resolved :: world where
  "resolved = returned (run accepting [Call_SetTol 5, Call_Solve] reregistered)"

section \<open>Properties\<close>

subsection \<open>How the building blocks return\<close>

lemma and_then_Inr_iff: "and_then m f = Inr y \<longleftrightarrow> (\<exists>x. m = Inr x \<and> f x = Inr y)"
  by (cases m) (simp_all add: and_then_def)

lemma PCHKERRQ_Inr_iff:
  "PCHKERRQ E c w = Inr w' \<longleftrightarrow> ierr_of E (calls w) c = 0 \<and> w' = w\<lparr>calls := calls w @ [c]\<rparr>"
  by (auto simp: PCHKERRQ_def)

lemma CCHKERRQ_Inr_iff:
  "CCHKERRQ E c w = Inr w' \<longleftrightarrow> ierr_of E (calls w) c = 0 \<and> w' = w\<lparr>calls := calls w @ [c]\<rparr>"
  by (auto simp: CCHKERRQ_def)

lemma and_then_Inl_iff:
  "and_then m f = Inl e \<longleftrightarrow> m = Inl e \<or> (\<exists>x. m = Inr x \<and> f x = Inl e)"
  by (cases m) (simp_all add: and_then_def)

lemma PCHKERRQ_Inl_iff:
  "PCHKERRQ E c w = Inl e \<longleftrightarrow> ierr_of E (calls w) c \<noteq> 0 \<and> e = engine_abort"
  by (auto simp: PCHKERRQ_def)

text \<open>Unfolding everything evaluates a method on a concrete state.\<close>

lemmas model_defs = and_then_def PCHKERRQ_def CCHKERRQ_def PetscObjectComm_def
  new_PetscParMatrix_def new_PetscParVector_obj_def delete_vector_def VecPlaceArray_def
  VecResetArray_def store_through_def SlepcEigenSolver_def destructor_def
  to_PetscParMatrix_def discard_views_def if_delete_def SetOperator_def SetOperators_def
  SetTol_def SetMaxIter_def SetNumModes_def SetWhichEigenpairs_def SetTarget_def
  SetSpectralTransformation_def Customize_def Solve_def GetEigenvalue_def GetEigenvalue2_def
  get_operators_def ensure_view_def GetEigenvector_def GetEigenvector2_def
  GetNumConverged_def merges_def accepting_def empty_world_def registered_def
  constructed_def latched_def Let_def

lemmas fixture_defs = returned_def retrieved_def reregistered_def solved_def
  first_retrieval_def second_retrieval_def resolved_def

subsection \<open>Tolerance and iteration limit\<close>

lemma pushed_tolerances_snoc:
  "pushed_tolerances (cs @ [EPSSetTolerances t n]) = Some (t, n)"
  by (induction cs) simp_all

lemma pushed_tolerances_snoc2:
  "pushed_tolerances (cs @ [c, EPSSetTolerances t n]) = Some (t, n)"
  using pushed_tolerances_snoc [of "cs @ [c]" t n] by simp

lemma SetTol_Inr_iff:
  "SetTol E x w = Inr w' \<longleftrightarrow>
     ierr_of E (calls w) (EPSSetTolerances x (max_its w)) = 0 \<and>
     w' = w\<lparr>tol := x, calls := calls w @ [EPSSetTolerances x (max_its w)]\<rparr>"
  by (auto simp: SetTol_def Let_def PCHKERRQ_Inr_iff)

lemma SetMaxIter_Inr_iff:
  "SetMaxIter E n w = Inr w' \<longleftrightarrow>
     ierr_of E (calls w) (EPSSetTolerances (tol w) n) = 0 \<and>
     w' = w\<lparr>max_its := n, calls := calls w @ [EPSSetTolerances (tol w) n]\<rparr>"
  by (auto simp: SetMaxIter_def Let_def PCHKERRQ_Inr_iff)

text \<open>
  Claim C7. Where the engine accepts both calls, a second \<open>SetTol(x)\<close> changes nothing but
  the log of calls: the stored tolerance, the stored iteration limit and every other field
  are those after the first call, and the tolerances the engine was given last are the
  same pair. The same holds for \<open>SetMaxIter\<close>. Of two calls with different values the
  second one wins, in the stored field and in what the engine was given.
\<close>

theorem tolerance_setters_idempotent:
  "(SetTol E x w = Inr w1 \<longrightarrow> SetTol E x w1 = Inr w2 \<longrightarrow>
      w2\<lparr>calls := calls w1\<rparr> = w1 \<and>
      pushed_tolerances (calls w2) = pushed_tolerances (calls w1) \<and>
      pushed_tolerances (calls w1) = Some (x, max_its w)) \<and>
   (SetMaxIter E n w = Inr u1 \<longrightarrow> SetMaxIter E n u1 = Inr u2 \<longrightarrow>
      u2\<lparr>calls := calls u1\<rparr> = u1 \<and>
      pushed_tolerances (calls u2) = pushed_tolerances (calls u1) \<and>
      pushed_tolerances (calls u1) = Some (tol w, n)) \<and>
   (SetTol E x w = Inr w1 \<longrightarrow> SetTol E y w1 = Inr w3 \<longrightarrow>
      tol w3 = y \<and> max_its w3 = max_its w \<and>
      pushed_tolerances (calls w3) = Some (y, max_its w)) \<and>
   (SetMaxIter E n w = Inr u1 \<longrightarrow> SetMaxIter E k u1 = Inr u3 \<longrightarrow>
      max_its u3 = k \<and> tol u3 = tol w \<and>
      pushed_tolerances (calls u3) = Some (tol w, k))"
  by (simp add: SetTol_Inr_iff SetMaxIter_Inr_iff pushed_tolerances_snoc
        pushed_tolerances_snoc2)

theorem tolerance_setters_idempotent_witness:
  "SetTol accepting 5 empty_world =
     Inr (empty_world\<lparr>tol := 5, calls := [EPSSetTolerances 5 0]\<rparr>) \<and>
   SetTol accepting 5 (empty_world\<lparr>tol := 5, calls := [EPSSetTolerances 5 0]\<rparr>) =
     Inr (empty_world\<lparr>tol := 5, calls := [EPSSetTolerances 5 0, EPSSetTolerances 5 0]\<rparr>) \<and>
   SetTol accepting 6 (empty_world\<lparr>tol := 5, calls := [EPSSetTolerances 5 0]\<rparr>) =
     Inr (empty_world\<lparr>tol := 6, calls := [EPSSetTolerances 5 0, EPSSetTolerances 6 0]\<rparr>) \<and>
   SetMaxIter accepting 7 empty_world =
     Inr (empty_world\<lparr>max_its := 7, calls := [EPSSetTolerances 0 7]\<rparr>) \<and>
   SetMaxIter accepting 7 (empty_world\<lparr>max_its := 7, calls := [EPSSetTolerances 0 7]\<rparr>) =
     Inr (empty_world\<lparr>max_its := 7, calls := [EPSSetTolerances 0 7, EPSSetTolerances 0 7]\<rparr>) \<and>
   SetMaxIter accepting 8 (empty_world\<lparr>max_its := 7, calls := [EPSSetTolerances 0 7]\<rparr>) =
     Inr (empty_world\<lparr>max_its := 8, calls := [EPSSetTolerances 0 7, EPSSetTolerances 0 8]\<rparr>) \<and>
   pushed_tolerances [EPSSetTolerances 5 0, EPSSetTolerances 5 0] = Some (5, 0) \<and>
   pushed_tolerances [EPSSetTolerances 5 0, EPSSetTolerances 6 0] = Some (6, 0) \<and>
   pushed_tolerances [EPSSetTolerances 0 7, EPSSetTolerances 0 7] = Some (0, 7) \<and>
   pushed_tolerances [EPSSetTolerances 0 7, EPSSetTolerances 0 8] = Some (0, 8)"
  using tolerance_setters_idempotent
    [where E = accepting and w = empty_world and x = 5 and y = 6 and n = 7 and k = 8
       and ?w1.0 = "empty_world\<lparr>tol := 5, calls := [EPSSetTolerances 5 0]\<rparr>"
       and ?w2.0 = "empty_world\<lparr>tol := 5, calls := [EPSSetTolerances 5 0, EPSSetTolerances 5 0]\<rparr>"
       and ?w3.0 = "empty_world\<lparr>tol := 6, calls := [EPSSetTolerances 5 0, EPSSetTolerances 6 0]\<rparr>"
       and ?u1.0 = "empty_world\<lparr>max_its := 7, calls := [EPSSetTolerances 0 7]\<rparr>"
       and ?u2.0 = "empty_world\<lparr>max_its := 7, calls := [EPSSetTolerances 0 7, EPSSetTolerances 0 7]\<rparr>"
       and ?u3.0 = "empty_world\<lparr>max_its := 8, calls := [EPSSetTolerances 0 7, EPSSetTolerances 0 8]\<rparr>"]
  by (simp add: SetTol_def SetMaxIter_def PCHKERRQ_def accepting_def empty_world_def Let_def)

subsection \<open>The two enumerations\<close>

lemma SetWhichEigenpairs_listed:
  "EPS_which which = Some c \<Longrightarrow>
     SetWhichEigenpairs E which w = PCHKERRQ E (EPSSetWhichEigenpairs c) w"
  by (cases which) (auto simp: SetWhichEigenpairs_def)

lemma SetSpectralTransformation_listed:
  "ST_type t = Some c \<Longrightarrow>
     SetSpectralTransformation E t w =
       and_then (PCHKERRQ E EPSGetST w) (PCHKERRQ E (STSetType c))"
  by (cases t) (auto simp: SetSpectralTransformation_def)

lemma enumeration_unlisted:
  "EPS_which which = None \<Longrightarrow>
     SetWhichEigenpairs E which w = Inl (MFEM_ABORT ''Which eigenpair not implemented!'')"
  by (cases which) (simp_all add: SetWhichEigenpairs_def)

lemma transformation_unlisted:
  "ST_type t = None \<Longrightarrow> SetSpectralTransformation E t w = Inr w' \<Longrightarrow> False"
  by (cases t) (simp_all add: SetSpectralTransformation_def and_then_Inr_iff)

text \<open>
  Claim C9. \<open>SetWhichEigenpairs\<close> aborts with its own message for every value that is
  not one of the eight enumerators, and for an enumerator it returns whenever the engine
  accepts the corresponding value. \<open>SetSpectralTransformation\<close> aborts for every value
  other than \<open>SHIFT\<close> and \<open>SHIFT_INVERT\<close> (with its own message once the engine has
  handed out the transformation object), and for these two it returns whenever the engine
  accepts the two calls.
\<close>

theorem enumeration_setters_abort:
  "((EPS_which which = None) = (\<exists>n. which = Which_unlisted n)) \<and>
   (EPS_which which = None \<longrightarrow>
      SetWhichEigenpairs E which w = Inl (MFEM_ABORT ''Which eigenpair not implemented!'')) \<and>
   (\<forall>c. EPS_which which = Some c \<longrightarrow>
      ierr_of E (calls w) (EPSSetWhichEigenpairs c) = 0 \<longrightarrow>
      SetWhichEigenpairs E which w = Inr (w\<lparr>calls := calls w @ [EPSSetWhichEigenpairs c]\<rparr>)) \<and>
   ((ST_type t = None) = (\<exists>n. t = SpectralTransformation_unlisted n)) \<and>
   (ST_type t = None \<longrightarrow>
      SetSpectralTransformation E t w =
        (if ierr_of E (calls w) EPSGetST \<noteq> 0 then Inl engine_abort
         else Inl (MFEM_ABORT ''Spectral transformation not implemented!''))) \<and>
   (\<forall>c. ST_type t = Some c \<longrightarrow>
      ierr_of E (calls w) EPSGetST = 0 \<longrightarrow>
      ierr_of E (calls w @ [EPSGetST]) (STSetType c) = 0 \<longrightarrow>
      SetSpectralTransformation E t w =
        Inr (w\<lparr>calls := calls w @ [EPSGetST, STSetType c]\<rparr>))"
proof -
  have a: "(EPS_which which = None) = (\<exists>n. which = Which_unlisted n)"
    by (cases which) simp_all
  have b: "EPS_which which = None \<longrightarrow>
      SetWhichEigenpairs E which w = Inl (MFEM_ABORT ''Which eigenpair not implemented!'')"
    by (cases which) (simp_all add: SetWhichEigenpairs_def)
  have c: "\<forall>c. EPS_which which = Some c \<longrightarrow>
      ierr_of E (calls w) (EPSSetWhichEigenpairs c) = 0 \<longrightarrow>
      SetWhichEigenpairs E which w = Inr (w\<lparr>calls := calls w @ [EPSSetWhichEigenpairs c]\<rparr>)"
    by (simp add: SetWhichEigenpairs_listed PCHKERRQ_def)
  have d: "(ST_type t = None) = (\<exists>n. t = SpectralTransformation_unlisted n)"
    by (cases t) simp_all
  have e: "ST_type t = None \<longrightarrow>
      SetSpectralTransformation E t w =
        (if ierr_of E (calls w) EPSGetST \<noteq> 0 then Inl engine_abort
         else Inl (MFEM_ABORT ''Spectral transformation not implemented!''))"
    by (cases t) (simp_all add: SetSpectralTransformation_def PCHKERRQ_def and_then_def)
  have f: "\<forall>c. ST_type t = Some c \<longrightarrow>
      ierr_of E (calls w) EPSGetST = 0 \<longrightarrow>
      ierr_of E (calls w @ [EPSGetST]) (STSetType c) = 0 \<longrightarrow>
      SetSpectralTransformation E t w =
        Inr (w\<lparr>calls := calls w @ [EPSGetST, STSetType c]\<rparr>)"
    by (simp add: SetSpectralTransformation_listed PCHKERRQ_def and_then_def)
  from a b c d e f show ?thesis by blast
qed

theorem enumeration_setters_abort_witness:
  "EPS_which (Which_unlisted 8) = None \<and>
   SetWhichEigenpairs accepting (Which_unlisted 8) empty_world =
     Inl (MFEM_ABORT ''Which eigenpair not implemented!'') \<and>
   ST_type (SpectralTransformation_unlisted 2) = None \<and>
   SetSpectralTransformation accepting (SpectralTransformation_unlisted 2) empty_world =
     Inl (MFEM_ABORT ''Spectral transformation not implemented!'') \<and>
   EPS_which SMALLEST_REAL = Some EPS_SMALLEST_REAL \<and>
   ierr_of accepting (calls empty_world) (EPSSetWhichEigenpairs EPS_SMALLEST_REAL) = 0 \<and>
   SetWhichEigenpairs accepting SMALLEST_REAL empty_world =
     Inr (empty_world\<lparr>calls := [EPSSetWhichEigenpairs EPS_SMALLEST_REAL]\<rparr>) \<and>
   ST_type SHIFT_INVERT = Some STSINVERT \<and>
   ierr_of accepting (calls empty_world) EPSGetST = 0 \<and>
   ierr_of accepting (calls empty_world @ [EPSGetST]) (STSetType STSINVERT) = 0 \<and>
   SetSpectralTransformation accepting SHIFT_INVERT empty_world =
     Inr (empty_world\<lparr>calls := [EPSGetST, STSetType STSINVERT]\<rparr>)"
  using enumeration_setters_abort
      [where which = "Which_unlisted 8" and t = "SpectralTransformation_unlisted 2"
         and E = accepting and w = empty_world]
    enumeration_setters_abort
      [where which = SMALLEST_REAL and t = SHIFT_INVERT and E = accepting and w = empty_world]
  by (simp add: accepting_def empty_world_def)

subsection \<open>Registering operators\<close>

lemma new_PetscParMatrix_eq:
  "new_PetscParMatrix E ctor w =
     (if ierr_of E (calls w) (ctor (next_addr w)) \<noteq> 0 then Inl engine_abort
      else Inr (next_addr w, allocated w (ctor (next_addr w))))"
  by (simp add: new_PetscParMatrix_def Let_def and_then_def PCHKERRQ_def allocated_def)

lemma to_PetscParMatrix_eq:
  "to_PetscParMatrix E op w =
     (case ctor_call w op of
        None \<Rightarrow> Inr (dynamic_cast_PetscParMatrix op, False, w)
      | Some c \<Rightarrow>
          if ierr_of E (calls w) c \<noteq> 0 then Inl engine_abort
          else Inr (Some (next_addr w), True, allocated w c))"
  by (cases op) (simp_all add: to_PetscParMatrix_def Let_def new_PetscParMatrix_eq and_then_def)

lemma to_PetscParMatrix_Inr:
  "to_PetscParMatrix E op w = Inr (pA, d, w') \<Longrightarrow> \<exists>A. pA = Some A"
  by (cases op) (auto simp: to_PetscParMatrix_eq split: if_splits)

lemma to_PetscParMatrix_Inl:
  "to_PetscParMatrix E op w = Inl e \<Longrightarrow> e = engine_abort"
  by (cases op) (auto simp: to_PetscParMatrix_eq split: if_splits)

lemma delete_vector_Inl: "delete_vector E V w = Inl e \<Longrightarrow> e = engine_abort"
  by (cases V) (auto simp: delete_vector_def and_then_Inl_iff PCHKERRQ_Inl_iff)

lemma delete_vector_Inr:
  "delete_vector E V w = Inr w' \<Longrightarrow>
     w' = w\<lparr>vectors := without V (vectors w), calls := calls w @ deletions V\<rparr>"
  by (cases V) (auto simp: delete_vector_def and_then_Inr_iff PCHKERRQ_Inr_iff)

lemma discard_views_Inl: "discard_views E w = Inl e \<Longrightarrow> e = engine_abort"
  by (auto simp: discard_views_def and_then_Inl_iff dest: delete_vector_Inl split: if_splits)

lemma discard_views_Inr:
  "discard_views E w = Inr w' \<Longrightarrow>
     w' = (if operatorset w
           then w\<lparr>VR := None, VC := None,
                  vectors := without (VC w) (without (VR w) (vectors w)),
                  calls := calls w @ deletions (VR w) @ deletions (VC w)\<rparr>
           else w)"
  by (auto simp: discard_views_def and_then_Inr_iff dest!: delete_vector_Inr split: if_splits)

lemma SetOperator_Inr:
  assumes "SetOperator E op w = Inr w'"
  shows "\<exists>A d w1 w2. to_PetscParMatrix E op w = Inr (Some A, d, w1) \<and>
           discard_views E w1 = Inr w2 \<and>
           w' = w2\<lparr>operatorset := True, calls := calls w2 @ [EPSSetOperators A None]\<rparr>"
  using assms
  by (auto simp: SetOperator_def and_then_Inr_iff PCHKERRQ_Inr_iff if_delete_def Let_def
           split: option.splits prod.splits)

lemma SetOperators_Inr:
  assumes "SetOperators E op opB w = Inr w'"
  shows "\<exists>A dA w1 B dB w2 w3. to_PetscParMatrix E op w = Inr (Some A, dA, w1) \<and>
           to_PetscParMatrix E opB w1 = Inr (Some B, dB, w2) \<and>
           discard_views E w2 = Inr w3 \<and>
           w' = w3\<lparr>operatorset := True, calls := calls w3 @ [EPSSetOperators A (Some B)]\<rparr>"
  using assms
  by (auto simp: SetOperators_def and_then_Inr_iff PCHKERRQ_Inr_iff if_delete_def Let_def
           split: option.splits prod.splits)

lemma register_Inl:
  assumes "and_then (discard_views E w) (\<lambda>w. and_then (PCHKERRQ E c (f w)) g) = Inl e"
    and "\<And>w. g w \<noteq> Inl e"
  shows "e = engine_abort"
proof (cases "discard_views E w")
  case (Inl x)
  with assms(1) have "x = e" by (simp add: and_then_def)
  with Inl show ?thesis by (auto dest: discard_views_Inl)
next
  case (Inr w2)
  with assms(1) have "and_then (PCHKERRQ E c (f w2)) g = Inl e"
    by (simp add: and_then_def)
  with assms(2) show ?thesis
    by (auto simp: and_then_Inl_iff PCHKERRQ_Inl_iff)
qed

lemma SetOperator_Inl:
  assumes "SetOperator E op w = Inl e"
  shows "e = engine_abort"
proof (cases "to_PetscParMatrix E op w")
  case (Inl x)
  with assms have "x = e" by (simp add: SetOperator_def and_then_def)
  with Inl show ?thesis by (auto dest: to_PetscParMatrix_Inl)
next
  case (Inr r)
  obtain pA d w1 where r: "r = (pA, d, w1)" by (cases r)
  with Inr obtain A where A: "pA = Some A" by (auto dest: to_PetscParMatrix_Inr)
  from assms Inr r A
  have "and_then (discard_views E w1)
          (\<lambda>w. and_then (PCHKERRQ E (EPSSetOperators A None) (id w))
                  (\<lambda>w. Inr (if_delete d (w\<lparr>operatorset := True\<rparr>)))) = Inl e"
    by (simp add: SetOperator_def and_then_def Let_def)
  then show ?thesis by (rule register_Inl) simp
qed

lemma SetOperators_Inl:
  assumes "SetOperators E op opB w = Inl e"
  shows "e = engine_abort"
proof (cases "to_PetscParMatrix E op w")
  case (Inl x)
  with assms have "x = e" by (simp add: SetOperators_def and_then_def)
  with Inl show ?thesis by (auto dest: to_PetscParMatrix_Inl)
next
  case (Inr r)
  obtain pA d w1 where r: "r = (pA, d, w1)" by (cases r)
  with Inr obtain A where A: "pA = Some A" by (auto dest: to_PetscParMatrix_Inr)
  show ?thesis
  proof (cases "to_PetscParMatrix E opB w1")
    case (Inl x)
    with assms Inr r A have "x = e" by (simp add: SetOperators_def and_then_def)
    with Inl show ?thesis by (auto dest: to_PetscParMatrix_Inl)
  next
    case Inr2: (Inr r2)
    obtain pB dB w2 where r2: "r2 = (pB, dB, w2)" by (cases r2)
    with Inr2 obtain B where B: "pB = Some B" by (auto dest: to_PetscParMatrix_Inr)
    from assms Inr r A Inr2 r2 B
    have "and_then (discard_views E w2)
            (\<lambda>w. and_then (PCHKERRQ E (EPSSetOperators A (Some B)) (w\<lparr>operatorset := True\<rparr>))
                    (\<lambda>w. Inr (if_delete dB (if_delete d w)))) = Inl e"
      by (simp add: SetOperators_def and_then_def Let_def)
    then show ?thesis by (rule register_Inl) simp
  qed
qed

text \<open>
  Claim C10. The cast of the argument to \<open>const Operator *\<close> never fails, so the conversion
  block always ends with a pointer that is not \<open>NULL\<close>: an argument that is neither a
  \<open>PetscParMatrix\<close> nor a \<open>HypreParMatrix\<close> goes to the constructor for generic operators,
  and the block returns the new matrix unless the library aborts in the constructor.
  Neither \<open>SetOperator\<close> nor \<open>SetOperators\<close> ever aborts through its \<open>MFEM_VERIFY\<close>, for
  either argument.
\<close>

theorem unsupported_operation_unreachable:
  "dynamic_cast_Operator op \<noteq> None \<and>
   (\<forall>pA d w'. to_PetscParMatrix E op w = Inr (pA, d, w') \<longrightarrow> pA \<noteq> None) \<and>
   (dynamic_cast_PetscParMatrix op = None \<longrightarrow> dynamic_cast_HypreParMatrix op = None \<longrightarrow>
      (\<exists>g. dynamic_cast_Operator op = Some g \<and>
         to_PetscParMatrix E op w =
           (if ierr_of E (calls w)
                 (new_PetscParMatrix_Operator (next_addr w) (PetscObjectComm w) g
                    (if wrap w then PETSC_MATSHELL else PETSC_MATAIJ)) \<noteq> 0
            then Inl engine_abort
            else Inr (Some (next_addr w), True,
                   allocated w
                     (new_PetscParMatrix_Operator (next_addr w) (PetscObjectComm w) g
                        (if wrap w then PETSC_MATSHELL else PETSC_MATAIJ)))))) \<and>
   (\<forall>msg. SetOperator E op w \<noteq> Inl (MFEM_VERIFY msg)) \<and>
   (\<forall>msg. SetOperators E op opB w \<noteq> Inl (MFEM_VERIFY msg)) \<and>
   (\<forall>msg. SetOperators E opB op w \<noteq> Inl (MFEM_VERIFY msg))"
proof -
  have a: "dynamic_cast_Operator op \<noteq> None"
    by (cases op) simp_all
  have b: "\<forall>pA d w'. to_PetscParMatrix E op w = Inr (pA, d, w') \<longrightarrow> pA \<noteq> None"
    by (auto dest: to_PetscParMatrix_Inr)
  have c: "dynamic_cast_PetscParMatrix op = None \<longrightarrow> dynamic_cast_HypreParMatrix op = None \<longrightarrow>
      (\<exists>g. dynamic_cast_Operator op = Some g \<and>
         to_PetscParMatrix E op w =
           (if ierr_of E (calls w)
                 (new_PetscParMatrix_Operator (next_addr w) (PetscObjectComm w) g
                    (if wrap w then PETSC_MATSHELL else PETSC_MATAIJ)) \<noteq> 0
            then Inl engine_abort
            else Inr (Some (next_addr w), True,
                   allocated w
                     (new_PetscParMatrix_Operator (next_addr w) (PetscObjectComm w) g
                        (if wrap w then PETSC_MATSHELL else PETSC_MATAIJ)))))"
    by (cases op) (simp_all add: to_PetscParMatrix_eq)
  have d: "\<forall>msg. SetOperator E op w \<noteq> Inl (MFEM_VERIFY msg)"
    by (auto dest: SetOperator_Inl)
  have e: "\<forall>msg. SetOperators E op opB w \<noteq> Inl (MFEM_VERIFY msg)"
    by (auto dest: SetOperators_Inl)
  have f: "\<forall>msg. SetOperators E opB op w \<noteq> Inl (MFEM_VERIFY msg)"
    by (auto dest: SetOperators_Inl)
  from a b c d e f show ?thesis by blast
qed

theorem unsupported_operation_unreachable_witness:
  "dynamic_cast_PetscParMatrix (OtherOperator 7) = None \<and>
   dynamic_cast_HypreParMatrix (OtherOperator 7) = None \<and>
   dynamic_cast_Operator (OtherOperator 7) = Some 7 \<and>
   to_PetscParMatrix accepting (OtherOperator 7) constructed =
     Inr (Some 100, True,
          constructed\<lparr>matrices := {100}, next_addr := 101,
            calls := calls constructed @
              [new_PetscParMatrix_Operator 100 0 7 PETSC_MATAIJ]\<rparr>) \<and>
   SetOperator accepting (OtherOperator 7) constructed =
     Inr (constructed\<lparr>operatorset := True, matrices := {100}, next_addr := 101,
            calls := calls constructed @
              [new_PetscParMatrix_Operator 100 0 7 PETSC_MATAIJ, EPSSetOperators 100 None]\<rparr>)"
  using unsupported_operation_unreachable
      [where op = "OtherOperator 7" and E = accepting and w = constructed]
  by (simp add: model_defs allocated_def)

lemma to_PetscParMatrix_Inr_eq:
  "to_PetscParMatrix E op w = Inr (pA, d, w') \<Longrightarrow>
     pA = Some (handle_of w op) \<and> d = (ctor_call w op \<noteq> None) \<and> w' = converted w op"
  by (cases op) (auto simp: to_PetscParMatrix_eq handle_of_def converted_def split: if_splits)

lemma discard_views_Inr_eq: "discard_views E w = Inr w' \<Longrightarrow> w' = discarded w"
  by (simp add: discarded_def discard_views_Inr)

lemma SetOperator_Inr_eq:
  assumes "SetOperator E op w = Inr w'"
  shows "w' = (discarded (converted w op))
               \<lparr>operatorset := True,
                calls := calls (discarded (converted w op)) @
                   [EPSSetOperators (handle_of w op) None]\<rparr>"
proof -
  from SetOperator_Inr [OF assms] obtain A d w1 w2 where
    c: "to_PetscParMatrix E op w = Inr (Some A, d, w1)" and
    v: "discard_views E w1 = Inr w2" and
    r: "w' = w2\<lparr>operatorset := True, calls := calls w2 @ [EPSSetOperators A None]\<rparr>"
    by blast
  from to_PetscParMatrix_Inr_eq [OF c] discard_views_Inr_eq [OF v] r
  show ?thesis by simp
qed

lemma SetOperators_Inr_eq:
  assumes "SetOperators E op opB w = Inr w'"
  shows "w' = (discarded (converted (converted w op) opB))
               \<lparr>operatorset := True,
                calls := calls (discarded (converted (converted w op) opB)) @
                   [EPSSetOperators (handle_of w op)
                      (Some (handle_of (converted w op) opB))]\<rparr>"
proof -
  from SetOperators_Inr [OF assms] obtain A dA w1 B dB w2 w3 where
    c: "to_PetscParMatrix E op w = Inr (Some A, dA, w1)" and
    c': "to_PetscParMatrix E opB w1 = Inr (Some B, dB, w2)" and
    v: "discard_views E w2 = Inr w3" and
    r: "w' = w3\<lparr>operatorset := True, calls := calls w3 @ [EPSSetOperators A (Some B)]\<rparr>"
    by blast
  from to_PetscParMatrix_Inr_eq [OF c] to_PetscParMatrix_Inr_eq [OF c']
    discard_views_Inr_eq [OF v] r
  show ?thesis by simp
qed

lemma synthesized_append [simp]: "synthesized (xs @ ys) = synthesized xs @ synthesized ys"
  by (induction xs) simp_all

lemma released_append [simp]: "released (xs @ ys) = released xs @ released ys"
  by (induction xs) simp_all

lemma synthesized_deletions [simp]: "synthesized (deletions V) = []"
  by (cases V) simp_all

lemma released_deletions [simp]: "released (deletions V) = []"
  by (cases V) simp_all

lemma calls_discarded:
  "calls (discarded w) =
     calls w @ (if operatorset w then deletions (VR w) @ deletions (VC w) else [])"
  by (simp add: discarded_def)

lemma matrices_discarded [simp]: "matrices (discarded w) = matrices w"
  by (simp add: discarded_def)

lemma next_addr_discarded [simp]: "next_addr (discarded w) = next_addr w"
  by (simp add: discarded_def)

lemma synthesized_discarded [simp]:
  "synthesized (calls (discarded w)) = synthesized (calls w)"
  by (simp add: calls_discarded)

lemma released_discarded [simp]: "released (calls (discarded w)) = released (calls w)"
  by (simp add: calls_discarded)

lemma synthesized_converted:
  "synthesized (calls (converted w op)) =
     synthesized (calls w) @ (case ctor_call w op of None \<Rightarrow> [] | Some c \<Rightarrow> [next_addr w])"
  by (cases op) (simp_all add: converted_def allocated_def)

lemma released_converted [simp]: "released (calls (converted w op)) = released (calls w)"
  by (cases op) (simp_all add: converted_def allocated_def)

lemma converted_canonical [simp]: "converted w (PetscParMatrix a) = w"
  by (simp add: converted_def)

lemma handle_of_canonical [simp]: "handle_of w (PetscParMatrix a) = a"
  by (simp add: handle_of_def)

text \<open>
  Claim C6. For an argument that is a \<open>PetscParMatrix\<close> the conversion block returns the
  argument itself with the flag \<open>false\<close> and leaves the state as it is. \<open>SetOperator\<close> and
  \<open>SetOperators\<close> hand that very object to \<open>EPSSetOperators\<close>; they construct a matrix
  only for an argument that is not a \<open>PetscParMatrix\<close>, and they delete none.
\<close>

theorem canonical_operator_passed_unmodified:
  "to_PetscParMatrix E (PetscParMatrix a) w = Inr (Some a, False, w) \<and>
   (SetOperator E (PetscParMatrix a) w = Inr w' \<longrightarrow>
      calls w' =
        calls w @ (if operatorset w then deletions (VR w) @ deletions (VC w) else []) @
        [EPSSetOperators a None] \<and>
      matrices w' = matrices w \<and> next_addr w' = next_addr w) \<and>
   (SetOperators E (PetscParMatrix a) opB w = Inr u \<longrightarrow>
      last (calls u) = EPSSetOperators a (Some (handle_of w opB)) \<and>
      synthesized (calls u) =
        synthesized (calls w) @ (case ctor_call w opB of None \<Rightarrow> [] | Some c \<Rightarrow> [next_addr w]) \<and>
      released (calls u) = released (calls w)) \<and>
   (SetOperators E op (PetscParMatrix b) w = Inr v \<longrightarrow>
      last (calls v) = EPSSetOperators (handle_of w op) (Some b) \<and>
      synthesized (calls v) =
        synthesized (calls w) @ (case ctor_call w op of None \<Rightarrow> [] | Some c \<Rightarrow> [next_addr w]) \<and>
      released (calls v) = released (calls w))"
proof -
  have a: "to_PetscParMatrix E (PetscParMatrix a) w = Inr (Some a, False, w)"
    by (simp add: to_PetscParMatrix_eq)
  have b: "SetOperator E (PetscParMatrix a) w = Inr w' \<longrightarrow>
      calls w' =
        calls w @ (if operatorset w then deletions (VR w) @ deletions (VC w) else []) @
        [EPSSetOperators a None] \<and>
      matrices w' = matrices w \<and> next_addr w' = next_addr w"
    by (auto dest!: SetOperator_Inr_eq simp: calls_discarded)
  have c: "SetOperators E (PetscParMatrix a) opB w = Inr u \<longrightarrow>
      last (calls u) = EPSSetOperators a (Some (handle_of w opB)) \<and>
      synthesized (calls u) =
        synthesized (calls w) @ (case ctor_call w opB of None \<Rightarrow> [] | Some c \<Rightarrow> [next_addr w]) \<and>
      released (calls u) = released (calls w)"
    by (auto dest!: SetOperators_Inr_eq simp: synthesized_converted)
  have d: "SetOperators E op (PetscParMatrix b) w = Inr v \<longrightarrow>
      last (calls v) = EPSSetOperators (handle_of w op) (Some b) \<and>
      synthesized (calls v) =
        synthesized (calls w) @ (case ctor_call w op of None \<Rightarrow> [] | Some c \<Rightarrow> [next_addr w]) \<and>
      released (calls v) = released (calls w)"
    by (auto dest!: SetOperators_Inr_eq simp: synthesized_converted)
  from a b c d show ?thesis by blast
qed

theorem canonical_operator_passed_unmodified_witness:
  "SetOperator accepting (PetscParMatrix 7) constructed =
     Inr (constructed\<lparr>operatorset := True,
            calls := calls constructed @ [EPSSetOperators 7 None]\<rparr>) \<and>
   calls (constructed\<lparr>operatorset := True,
            calls := calls constructed @ [EPSSetOperators 7 None]\<rparr>) =
     calls constructed @
     (if operatorset constructed
      then deletions (VR constructed) @ deletions (VC constructed) else []) @
     [EPSSetOperators 7 None] \<and>
   SetOperators accepting (PetscParMatrix 7) (HypreParMatrix 8) constructed =
     Inr (constructed\<lparr>operatorset := True, matrices := {100}, next_addr := 101,
            calls := calls constructed @
              [new_PetscParMatrix_Hypre 100 8 PETSC_MATAIJ, EPSSetOperators 7 (Some 100)]\<rparr>) \<and>
   synthesized (calls constructed @
       [new_PetscParMatrix_Hypre 100 8 PETSC_MATAIJ, EPSSetOperators 7 (Some 100)]) = [100] \<and>
   SetOperators accepting (OtherOperator 9) (PetscParMatrix 7) constructed =
     Inr (constructed\<lparr>operatorset := True, matrices := {100}, next_addr := 101,
            calls := calls constructed @
              [new_PetscParMatrix_Operator 100 0 9 PETSC_MATAIJ, EPSSetOperators 100 (Some 7)]\<rparr>) \<and>
   released (calls constructed @
       [new_PetscParMatrix_Operator 100 0 9 PETSC_MATAIJ, EPSSetOperators 100 (Some 7)]) = []"
  using canonical_operator_passed_unmodified
      [where E = accepting and a = 7 and b = 7 and w = constructed
         and opB = "HypreParMatrix 8" and op = "OtherOperator 9"
         and w' = "constructed\<lparr>operatorset := True,
            calls := calls constructed @ [EPSSetOperators 7 None]\<rparr>"
         and u = "constructed\<lparr>operatorset := True, matrices := {100}, next_addr := 101,
            calls := calls constructed @
              [new_PetscParMatrix_Hypre 100 8 PETSC_MATAIJ, EPSSetOperators 7 (Some 100)]\<rparr>"
         and v = "constructed\<lparr>operatorset := True, matrices := {100}, next_addr := 101,
            calls := calls constructed @
              [new_PetscParMatrix_Operator 100 0 9 PETSC_MATAIJ, EPSSetOperators 100 (Some 7)]\<rparr>"]
  by (simp add: model_defs)

text \<open>
  On claim C1. \<open>SetOperator\<close> on a \<open>HypreParMatrix\<close> constructs the matrix 100 and returns
  without deleting it; \<open>SetOperators\<close> on two operators that are not \<open>PetscParMatrix\<close>
  constructs the matrices 100 and 101 and deletes neither. Both stay allocated.
\<close>

theorem synthesized_handle_not_released:
  "map_sum id (\<lambda>w. (synthesized (calls w), released (calls w), matrices w))
     (SetOperator accepting (HypreParMatrix 7) constructed) = Inr ([100], [], {100}) \<and>
   map_sum id (\<lambda>w. (synthesized (calls w), released (calls w), matrices w))
     (SetOperators accepting (OtherOperator 7) (HypreParMatrix 8) constructed) =
     Inr ([100, 101], [], {100, 101})"
  by (simp add: model_defs insert_commute)

subsection \<open>What a call leaves alone\<close>

text \<open>
  The latch and the number of merges are the same before and after each building block
  that does not call \<open>EPSSetFromOptions\<close>.
\<close>

lemma PCHKERRQ_quiet:
  "PCHKERRQ E c w = Inr w' \<Longrightarrow> c \<noteq> EPSSetFromOptions \<Longrightarrow>
     clcustom w' = clcustom w \<and> merges w' = merges w"
  by (auto simp: PCHKERRQ_Inr_iff merges_def)

lemma new_PetscParVector_obj_quiet:
  "new_PetscParVector_obj E pA w = Inr (v, w') \<Longrightarrow>
     clcustom w' = clcustom w \<and> merges w' = merges w"
  by (auto simp: new_PetscParVector_obj_def Let_def and_then_Inr_iff PCHKERRQ_Inr_iff merges_def)

lemma get_operators_quiet:
  "get_operators E w = Inr (pA, w') \<Longrightarrow> clcustom w' = clcustom w \<and> merges w' = merges w"
  by (auto simp: get_operators_def and_then_Inr_iff PCHKERRQ_Inr_iff merges_def)

lemma ensure_view_quiet:
  "ensure_view E V pA w = Inr (v, w') \<Longrightarrow> clcustom w' = clcustom w \<and> merges w' = merges w"
  by (cases V) (auto simp: ensure_view_def dest: new_PetscParVector_obj_quiet)

lemma VecPlaceArray_quiet:
  "VecPlaceArray E v a w = Inr w' \<Longrightarrow> clcustom w' = clcustom w \<and> merges w' = merges w"
  by (auto simp: VecPlaceArray_def and_then_Inr_iff PCHKERRQ_Inr_iff merges_def)

lemma VecResetArray_quiet:
  "VecResetArray E v w = Inr w' \<Longrightarrow> clcustom w' = clcustom w \<and> merges w' = merges w"
  by (auto simp: VecResetArray_def and_then_Inr_iff PCHKERRQ_Inr_iff merges_def)

lemma store_through_quiet:
  "store_through v xs w = Inr w' \<Longrightarrow> clcustom w' = clcustom w \<and> merges w' = merges w"
  by (auto simp: store_through_def merges_def split: option.splits if_splits)

lemma GetEigenvector_quiet:
  assumes "GetEigenvector E i vr w = Inr w'"
  shows "clcustom w' = clcustom w \<and> merges w' = merges w"
  using assms
  by (auto simp: GetEigenvector_def and_then_Inr_iff merges_def split: if_splits
      dest!: get_operators_quiet new_PetscParVector_obj_quiet VecPlaceArray_quiet
        VecResetArray_quiet store_through_quiet PCHKERRQ_quiet)

lemma GetEigenvector2_quiet:
  assumes "GetEigenvector2 E i vr vc w = Inr w'"
  shows "clcustom w' = clcustom w \<and> merges w' = merges w"
  using assms
  by (auto simp: GetEigenvector2_def and_then_Inr_iff merges_def Let_def split: if_splits
      dest!: get_operators_quiet ensure_view_quiet VecPlaceArray_quiet
        VecResetArray_quiet store_through_quiet PCHKERRQ_quiet)

lemma converted_quiet [simp]:
  "clcustom (converted w op) = clcustom w" "merges (converted w op) = merges w"
  by (cases op; simp add: converted_def allocated_def merges_def)+

lemma count_deletions [simp]: "count_list (deletions V) EPSSetFromOptions = 0"
  by (cases V) simp_all

lemma discarded_quiet [simp]:
  "clcustom (discarded w) = clcustom w" "merges (discarded w) = merges w"
  by (simp_all add: discarded_def merges_def)

lemma SetOperator_quiet:
  "SetOperator E op w = Inr w' \<Longrightarrow> clcustom w' = clcustom w \<and> merges w' = merges w"
  using discarded_quiet(2) [of "converted w op"] converted_quiet(2) [of w op]
  by (auto dest!: SetOperator_Inr_eq simp: merges_def)

lemma SetOperators_quiet:
  "SetOperators E op opB w = Inr w' \<Longrightarrow> clcustom w' = clcustom w \<and> merges w' = merges w"
  using discarded_quiet(2) [of "converted (converted w op) opB"]
    converted_quiet(2) [of "converted w op" opB] converted_quiet(2) [of w op]
  by (auto dest!: SetOperators_Inr_eq simp: merges_def)

lemma Customize_Inr_iff:
  "Customize E b w = Inr w' \<longleftrightarrow>
     (if b \<and> \<not> clcustom w
      then ierr_of E (calls w) EPSSetFromOptions = 0 \<and>
           w' = w\<lparr>clcustom := True, calls := calls w @ [EPSSetFromOptions]\<rparr>
      else w' = w\<lparr>clcustom := True\<rparr>)"
  by (auto simp: Customize_def Let_def and_then_Inr_iff PCHKERRQ_Inr_iff)

lemma Solve_Inr:
  "Solve E w = Inr w' \<Longrightarrow>
     w' = w\<lparr>clcustom := True,
            calls := calls w @ (if clcustom w then [] else [EPSSetFromOptions]) @ [EPSSolve]\<rparr>"
  by (auto simp: Solve_def and_then_Inr_iff Customize_Inr_iff PCHKERRQ_Inr_iff split: if_splits)

lemma query_Inr_iff:
  "map_sum id snd (GetEigenvalue E i w) = Inr w' \<longleftrightarrow>
     ierr_of E (calls w) (EPSGetEigenvalue i) = 0 \<and>
     w' = w\<lparr>calls := calls w @ [EPSGetEigenvalue i]\<rparr>"
  "map_sum id snd (GetEigenvalue2 E i w) = Inr w' \<longleftrightarrow>
     ierr_of E (calls w) (EPSGetEigenvalue i) = 0 \<and>
     w' = w\<lparr>calls := calls w @ [EPSGetEigenvalue i]\<rparr>"
  "map_sum id snd (GetNumConverged E w) = Inr w' \<longleftrightarrow>
     ierr_of E (calls w) EPSGetConverged = 0 \<and>
     w' = w\<lparr>calls := calls w @ [EPSGetConverged]\<rparr>"
  by (auto simp: GetEigenvalue_def GetEigenvalue2_def GetNumConverged_def and_then_def
        PCHKERRQ_def)

lemma invoke_quiet:
  assumes "invoke E m w = Inr w'" and "m \<noteq> Call_Solve" and "\<And>b. m \<noteq> Call_Customize b"
  shows "clcustom w' = clcustom w \<and> merges w' = merges w"
proof (cases m)
  case (Call_SetOperator op)
  with assms(1) show ?thesis by (simp add: SetOperator_quiet)
next
  case (Call_SetOperators op opB)
  with assms(1) show ?thesis by (simp add: SetOperators_quiet)
next
  case (Call_SetTol x)
  with assms(1) show ?thesis by (simp add: SetTol_def Let_def PCHKERRQ_Inr_iff merges_def)
next
  case (Call_SetMaxIter n)
  with assms(1) show ?thesis by (simp add: SetMaxIter_def Let_def PCHKERRQ_Inr_iff merges_def)
next
  case (Call_SetNumModes n)
  with assms(1) show ?thesis by (simp add: SetNumModes_def PCHKERRQ_Inr_iff merges_def)
next
  case Call_Solve
  with assms(2) show ?thesis by simp
next
  case (Call_Customize b)
  with assms(3) [of b] show ?thesis by simp
next
  case (Call_GetEigenvalue i)
  with assms(1) show ?thesis
    by (simp add: query_Inr_iff merges_def)
next
  case (Call_GetEigenvalue2 i)
  with assms(1) show ?thesis
    by (simp add: query_Inr_iff merges_def)
next
  case (Call_GetEigenvector i vr)
  with assms(1) show ?thesis by (simp add: GetEigenvector_quiet)
next
  case (Call_GetEigenvector2 i vr vc)
  with assms(1) show ?thesis by (simp add: GetEigenvector2_quiet)
next
  case Call_GetNumConverged
  with assms(1) show ?thesis
    by (simp add: query_Inr_iff merges_def)
next
  case (Call_SetWhichEigenpairs which)
  with assms(1) show ?thesis
    by (cases "EPS_which which")
       (auto simp: enumeration_unlisted SetWhichEigenpairs_listed PCHKERRQ_Inr_iff merges_def)
next
  case (Call_SetTarget x)
  with assms(1) show ?thesis by (simp add: SetTarget_def PCHKERRQ_Inr_iff merges_def)
next
  case (Call_SetSpectralTransformation t)
  with assms(1) show ?thesis
    by (cases "ST_type t")
       (auto dest: transformation_unlisted
          simp: SetSpectralTransformation_listed and_then_Inr_iff PCHKERRQ_Inr_iff merges_def)
qed

subsection \<open>The customization latch\<close>

lemma invoke_latch:
  assumes "invoke E m w = Inr w'"
  shows "(clcustom w \<longrightarrow> clcustom w' \<and> merges w' = merges w) \<and>
         (\<not> clcustom w \<longrightarrow> (clcustom w' \<and> merges w' \<le> merges w + 1) \<or>
                               (\<not> clcustom w' \<and> merges w' = merges w)) \<and>
         (m = Call_Solve \<or> (\<exists>b. m = Call_Customize b) \<longrightarrow> clcustom w')"
proof (cases "m = Call_Solve \<or> (\<exists>b. m = Call_Customize b)")
  case True
  with assms show ?thesis
    by (auto dest!: Solve_Inr simp: Customize_Inr_iff merges_def split: if_splits)
next
  case False
  with invoke_quiet [OF assms] show ?thesis by auto
qed

lemma run_latch:
  "run E ms w = Inr w' \<Longrightarrow>
     (clcustom w \<longrightarrow> clcustom w' \<and> merges w' = merges w) \<and>
     (\<not> clcustom w \<longrightarrow> merges w' \<le> merges w + 1) \<and>
     (Call_Solve \<in> set ms \<or> (\<exists>b. Call_Customize b \<in> set ms) \<longrightarrow> clcustom w')"
proof (induction ms arbitrary: w)
  case Nil
  then show ?case by simp
next
  case (Cons m ms)
  from Cons.prems obtain w1 where
    m: "invoke E m w = Inr w1" and ms: "run E ms w1 = Inr w'"
    by (auto simp: and_then_Inr_iff)
  from invoke_latch [OF m] Cons.IH [OF ms] show ?case
    by (cases "clcustom w"; cases "clcustom w1") auto
qed

lemma SlepcEigenSolver_Inr:
  "SlepcEigenSolver E comm prefix wr w = Inr w0 \<Longrightarrow>
     w0 = w\<lparr>clcustom := False, tol := PETSC_DEFAULT_double E, max_its := PETSC_DEFAULT_int E,
            wrap := wr, VR := None, VC := None, operatorset := False, eps := Some comm,
            calls := calls w @ [EPSCreate comm, EPSSetOptionsPrefix prefix]\<rparr>"
  by (auto simp: SlepcEigenSolver_def Let_def and_then_Inr_iff PCHKERRQ_Inr_iff CCHKERRQ_Inr_iff)

text \<open>
  Claim C4. The constructor leaves the latch false and merges nothing. Every \<open>Customize\<close>
  call that returns leaves the latch true, \<open>Customize(false)\<close> without a call to the
  engine. Once the latch is true, no method resets it, \<open>Customize\<close> makes no call at all,
  and no sequence of method calls merges again. Hence, after construction, any sequence
  of method calls merges at most once.
\<close>

theorem customization_latch:
  "(SlepcEigenSolver E comm prefix wr w = Inr w0 \<longrightarrow> \<not> clcustom w0 \<and> merges w0 = merges w) \<and>
   (Customize E b s = Inr u \<longrightarrow> clcustom u) \<and>
   (Customize E False s = Inr u \<longrightarrow> calls u = calls s) \<and>
   (clcustom s \<longrightarrow> Customize E b s = Inr u \<longrightarrow> calls u = calls s) \<and>
   (clcustom s \<longrightarrow> run E ms s = Inr s' \<longrightarrow> clcustom s' \<and> merges s' = merges s) \<and>
   (Call_Solve \<in> set ms \<or> Call_Customize b \<in> set ms \<longrightarrow> run E ms s = Inr s' \<longrightarrow>
      clcustom s') \<and>
   (SlepcEigenSolver E comm prefix wr w = Inr w0 \<longrightarrow> run E ms' w0 = Inr w1 \<longrightarrow>
      merges w1 \<le> merges w + 1)"
proof -
  have a: "SlepcEigenSolver E comm prefix wr w = Inr w0 \<longrightarrow>
      \<not> clcustom w0 \<and> merges w0 = merges w"
    by (auto dest!: SlepcEigenSolver_Inr simp: merges_def)
  have b: "Customize E b s = Inr u \<longrightarrow> clcustom u"
    by (auto simp: Customize_Inr_iff split: if_splits)
  have c: "Customize E False s = Inr u \<longrightarrow> calls u = calls s"
    by (simp add: Customize_Inr_iff)
  have d: "clcustom s \<longrightarrow> Customize E b s = Inr u \<longrightarrow> calls u = calls s"
    by (simp add: Customize_Inr_iff)
  have e: "clcustom s \<longrightarrow> run E ms s = Inr s' \<longrightarrow> clcustom s' \<and> merges s' = merges s"
    using run_latch [of E ms s s'] by blast
  have f: "Call_Solve \<in> set ms \<or> Call_Customize b \<in> set ms \<longrightarrow> run E ms s = Inr s' \<longrightarrow>
      clcustom s'"
    using run_latch [of E ms s s'] by blast
  have g: "SlepcEigenSolver E comm prefix wr w = Inr w0 \<longrightarrow> run E ms' w0 = Inr w1 \<longrightarrow>
      merges w1 \<le> merges w + 1"
    using a run_latch [of E ms' w0 w1] by (cases "clcustom w0") auto
  from a b c d e f g show ?thesis by blast
qed

theorem customization_latch_witness:
  "SlepcEigenSolver accepting 0 ''eps_'' False empty_world = Inr constructed \<and>
   \<not> clcustom constructed \<and> merges constructed = merges empty_world \<and>
   Customize accepting False constructed = Inr latched \<and>
   clcustom latched \<and> calls latched = calls constructed \<and>
   Customize accepting True latched = Inr latched \<and>
   Call_Solve \<in> set [Call_Solve, Call_Customize True] \<and>
   run accepting [Call_Solve, Call_Customize True] latched =
     Inr (latched\<lparr>calls := calls latched @ [EPSSolve]\<rparr>) \<and>
   merges (latched\<lparr>calls := calls latched @ [EPSSolve]\<rparr>) = merges latched \<and>
   run accepting [Call_Solve, Call_Customize True, Call_Solve] constructed =
     Inr (latched\<lparr>calls := calls latched @ [EPSSetFromOptions, EPSSolve, EPSSolve]\<rparr>) \<and>
   merges (latched\<lparr>calls := calls latched @ [EPSSetFromOptions, EPSSolve, EPSSolve]\<rparr>)
     \<le> merges empty_world + 1"
  using customization_latch
      [where E = accepting and comm = 0 and prefix = "''eps_''" and wr = False
         and w = empty_world and ?w0.0 = constructed and s = constructed and b = False
         and u = latched]
    customization_latch
      [where E = accepting and comm = 0 and prefix = "''eps_''" and wr = False
         and w = empty_world and ?w0.0 = constructed and s = latched and b = True
         and u = latched and ms = "[Call_Solve, Call_Customize True]"
         and s' = "latched\<lparr>calls := calls latched @ [EPSSolve]\<rparr>"
         and ms' = "[Call_Solve, Call_Customize True, Call_Solve]"
         and ?w1.0 = "latched\<lparr>calls := calls latched @ [EPSSetFromOptions, EPSSolve, EPSSolve]\<rparr>"]
  by (simp add: model_defs)

subsection \<open>The latch and the registration of operators\<close>

lemma invoke_registration_quiet:
  assumes "invoke E m w = Inr w'" and "is_registration m"
  shows "clcustom w' = clcustom w \<and> merges w' = merges w"
  using assms by (cases m) (simp_all add: SetOperator_quiet SetOperators_quiet)

lemma run_solve_or_registration:
  assumes "run E ms s = Inr s'" and "\<forall>m\<in>set ms. solve_or_registration m"
    and "\<not> clcustom s"
  shows "if Call_Solve \<in> set ms then clcustom s' \<and> merges s' = merges s + 1
         else \<not> clcustom s' \<and> merges s' = merges s"
  using assms
proof (induction ms arbitrary: s)
  case Nil
  then show ?case by simp
next
  case (Cons m ms)
  from Cons.prems(1) obtain s1 where
    m: "invoke E m s = Inr s1" and ms: "run E ms s1 = Inr s'"
    by (auto simp: and_then_Inr_iff)
  show ?case
  proof (cases "m = Call_Solve")
    case True
    with m Cons.prems(3) have "clcustom s1 \<and> merges s1 = merges s + 1"
      by (auto dest!: Solve_Inr simp: merges_def)
    with run_latch [OF ms] True show ?thesis by simp
  next
    case False
    with Cons.prems(2) have "is_registration m" by (cases m) simp_all
    from invoke_registration_quiet [OF m this] Cons.prems(3)
    have q: "\<not> clcustom s1" "merges s1 = merges s" by simp_all
    from Cons.prems(2) have "\<forall>m\<in>set ms. solve_or_registration m" by simp
    from Cons.IH [OF ms this q(1)] q(2) False show ?thesis by auto
  qed
qed

text \<open>
  On claim C3, as it is stated. After a registration, a solve and a second registration
  the latch is still true; and two solves with a registration between them merge once,
  not twice.
\<close>

theorem latch_reset_counterexample:
  "map_sum id clcustom
     (run accepting
        [Call_SetOperator (HypreParMatrix 7), Call_Solve, Call_SetOperator (HypreParMatrix 8)]
        constructed) = Inr True \<and>
   map_sum id merges
     (run accepting
        [Call_SetOperator (HypreParMatrix 7), Call_Solve, Call_SetOperator (HypreParMatrix 8),
         Call_Solve]
        constructed) = Inr 1"
  by (simp add: model_defs)

text \<open>
  Claim C3, amended. \<open>SetOperator\<close> and \<open>SetOperators\<close> leave the latch as it is, and merge
  nothing. Starting with the latch false, as the constructor leaves it, a sequence of
  solves and registrations that has a solve in it merges exactly once, whether or not
  operators are registered between the solves, and ends with the latch true.
\<close>

theorem registration_keeps_latch:
  "(SetOperator E op w = Inr w' \<longrightarrow> clcustom w' = clcustom w \<and> merges w' = merges w) \<and>
   (SetOperators E op opB w = Inr u \<longrightarrow> clcustom u = clcustom w \<and> merges u = merges w) \<and>
   (\<not> clcustom s \<longrightarrow> (\<forall>m\<in>set ms. solve_or_registration m) \<longrightarrow> Call_Solve \<in> set ms \<longrightarrow>
      run E ms s = Inr s' \<longrightarrow> clcustom s' \<and> merges s' = merges s + 1)"
proof -
  have a: "SetOperator E op w = Inr w' \<longrightarrow> clcustom w' = clcustom w \<and> merges w' = merges w"
    by (simp add: SetOperator_quiet)
  have b: "SetOperators E op opB w = Inr u \<longrightarrow> clcustom u = clcustom w \<and> merges u = merges w"
    by (simp add: SetOperators_quiet)
  have c: "\<not> clcustom s \<longrightarrow> (\<forall>m\<in>set ms. solve_or_registration m) \<longrightarrow> Call_Solve \<in> set ms \<longrightarrow>
      run E ms s = Inr s' \<longrightarrow> clcustom s' \<and> merges s' = merges s + 1"
    using run_solve_or_registration [of E ms s s'] by auto
  from a b c show ?thesis by blast
qed

theorem registration_keeps_latch_witness:
  "SetOperator accepting (PetscParMatrix 7) latched =
     Inr (latched\<lparr>operatorset := True, calls := calls latched @ [EPSSetOperators 7 None]\<rparr>) \<and>
   clcustom (latched\<lparr>operatorset := True, calls := calls latched @ [EPSSetOperators 7 None]\<rparr>) =
     clcustom latched \<and>
   SetOperators accepting (PetscParMatrix 7) (PetscParMatrix 8) latched =
     Inr (latched\<lparr>operatorset := True,
            calls := calls latched @ [EPSSetOperators 7 (Some 8)]\<rparr>) \<and>
   clcustom (latched\<lparr>operatorset := True,
            calls := calls latched @ [EPSSetOperators 7 (Some 8)]\<rparr>) = clcustom latched \<and>
   \<not> clcustom constructed \<and>
   solve_or_registration (Call_SetOperator (PetscParMatrix 7)) \<and>
   solve_or_registration Call_Solve \<and>
   solve_or_registration (Call_SetOperators (PetscParMatrix 7) (PetscParMatrix 8)) \<and>
   run accepting
     [Call_SetOperator (PetscParMatrix 7), Call_Solve,
      Call_SetOperators (PetscParMatrix 7) (PetscParMatrix 8), Call_Solve] constructed =
     Inr (latched\<lparr>operatorset := True,
            calls := calls latched @
              [EPSSetOperators 7 None, EPSSetFromOptions, EPSSolve,
               EPSSetOperators 7 (Some 8), EPSSolve]\<rparr>) \<and>
   merges (latched\<lparr>operatorset := True,
            calls := calls latched @
              [EPSSetOperators 7 None, EPSSetFromOptions, EPSSolve,
               EPSSetOperators 7 (Some 8), EPSSolve]\<rparr>) = merges constructed + 1"
  using registration_keeps_latch
      [where E = accepting and op = "PetscParMatrix 7" and opB = "PetscParMatrix 8"
         and w = latched
         and w' = "latched\<lparr>operatorset := True,
            calls := calls latched @ [EPSSetOperators 7 None]\<rparr>"
         and u = "latched\<lparr>operatorset := True,
            calls := calls latched @ [EPSSetOperators 7 (Some 8)]\<rparr>"
         and s = constructed
         and ms = "[Call_SetOperator (PetscParMatrix 7), Call_Solve,
            Call_SetOperators (PetscParMatrix 7) (PetscParMatrix 8), Call_Solve]"
         and s' = "latched\<lparr>operatorset := True,
            calls := calls latched @
              [EPSSetOperators 7 None, EPSSetFromOptions, EPSSolve,
               EPSSetOperators 7 (Some 8), EPSSolve]\<rparr>"]
  by (simp add: model_defs)

subsection \<open>Retrieving eigenvectors\<close>

lemma new_PetscParVector_obj_Inr_iff:
  "new_PetscParVector_obj E pA w = Inr r \<longleftrightarrow>
     ierr_of E (calls w) (new_PetscParVector (next_addr w) pA) = 0 \<and>
     r = (next_addr w,
          w\<lparr>vectors := (vectors w)(next_addr w \<mapsto> \<lparr>layout = pA, array = None\<rparr>),
            next_addr := Suc (next_addr w),
            calls := calls w @ [new_PetscParVector (next_addr w) pA]\<rparr>)"
  by (auto simp: new_PetscParVector_obj_def Let_def and_then_Inr_iff PCHKERRQ_Inr_iff)

lemma get_operators_Inr_iff:
  "get_operators E w = Inr r \<longleftrightarrow>
     ierr_of E (calls w) EPSGetOperators = 0 \<and>
     r = (operators_of E (calls w), w\<lparr>calls := calls w @ [EPSGetOperators]\<rparr>)"
  by (auto simp: get_operators_def and_then_Inr_iff PCHKERRQ_Inr_iff)

lemma VecPlaceArray_Inr_iff:
  "VecPlaceArray E v a w = Inr w' \<longleftrightarrow>
     ierr_of E (calls w) (PlaceArray v a) = 0 \<and>
     w' = w\<lparr>vectors := (vectors w)(v := map_option (\<lambda>x. x\<lparr>array := Some a\<rparr>) (vectors w v)),
            calls := calls w @ [PlaceArray v a]\<rparr>"
  by (auto simp: VecPlaceArray_def and_then_Inr_iff PCHKERRQ_Inr_iff)

lemma VecResetArray_Inr_iff:
  "VecResetArray E v w = Inr w' \<longleftrightarrow>
     ierr_of E (calls w) (ResetArray v) = 0 \<and>
     w' = w\<lparr>vectors := (vectors w)(v := map_option (\<lambda>x. x\<lparr>array := None\<rparr>) (vectors w v)),
            calls := calls w @ [ResetArray v]\<rparr>"
  by (auto simp: VecResetArray_def and_then_Inr_iff PCHKERRQ_Inr_iff)

lemma store_through_Inr_iff:
  "store_through v xs w = Inr w' \<longleftrightarrow>
     (\<exists>x a. vectors w v = Some x \<and> array x = Some a \<and> length xs \<le> length (mem w a) \<and>
        w' = w\<lparr>mem := (mem w)(a := xs @ drop (length xs) (mem w a))\<rparr>)"
  by (auto simp: store_through_def split: option.splits)

lemma GetEigenvector_fresh:
  assumes "GetEigenvector E i vr w = Inr w'" and "VR w = None"
  shows "length (fst (eigenvector_of E
            (calls w @ [EPSGetOperators,
               new_PetscParVector (next_addr w) (operators_of E (calls w)),
               PlaceArray (next_addr w) vr]) i)) \<le> length (mem w vr) \<and>
         w' = w\<lparr>VR := Some (next_addr w),
                vectors := (vectors w)(next_addr w \<mapsto>
                   \<lparr>layout = operators_of E (calls w), array = None\<rparr>),
                next_addr := Suc (next_addr w),
                mem := (mem w)(vr :=
                   fst (eigenvector_of E
                     (calls w @ [EPSGetOperators,
                        new_PetscParVector (next_addr w) (operators_of E (calls w)),
                        PlaceArray (next_addr w) vr]) i) @
                   drop (length (fst (eigenvector_of E
                     (calls w @ [EPSGetOperators,
                        new_PetscParVector (next_addr w) (operators_of E (calls w)),
                        PlaceArray (next_addr w) vr]) i))) (mem w vr)),
                calls := calls w @ [EPSGetOperators,
                   new_PetscParVector (next_addr w) (operators_of E (calls w)),
                   PlaceArray (next_addr w) vr,
                   EPSGetEigenvector i (next_addr w) None,
                   ResetArray (next_addr w)]\<rparr>"
  using assms
  by (auto simp: GetEigenvector_def and_then_Inr_iff get_operators_Inr_iff
        new_PetscParVector_obj_Inr_iff VecPlaceArray_Inr_iff VecResetArray_Inr_iff
        store_through_Inr_iff PCHKERRQ_Inr_iff)

lemma GetEigenvector_cached:
  assumes "GetEigenvector E i vr w = Inr w'" and "VR w = Some v"
  shows "\<exists>x. vectors w v = Some x \<and>
         length (fst (eigenvector_of E (calls w @ [PlaceArray v vr]) i)) \<le> length (mem w vr) \<and>
         w' = w\<lparr>vectors := (vectors w)(v \<mapsto> x\<lparr>array := None\<rparr>),
                mem := (mem w)(vr :=
                   fst (eigenvector_of E (calls w @ [PlaceArray v vr]) i) @
                   drop (length (fst (eigenvector_of E (calls w @ [PlaceArray v vr]) i)))
                     (mem w vr)),
                calls := calls w @ [PlaceArray v vr, EPSGetEigenvector i v None, ResetArray v]\<rparr>"
  using assms
  by (auto simp: GetEigenvector_def and_then_Inr_iff VecPlaceArray_Inr_iff
        VecResetArray_Inr_iff store_through_Inr_iff PCHKERRQ_Inr_iff)

lemma GetEigenvector_detached:
  assumes "GetEigenvector E i vr w = Inr w'"
  shows "\<exists>v x. VR w' = Some v \<and> vectors w' v = Some x \<and> array x = None"
proof (cases "VR w")
  case None
  from GetEigenvector_fresh [OF assms None] show ?thesis
    by (intro exI [of _ "next_addr w"]) (elim conjE, simp)
next
  case (Some v)
  from GetEigenvector_cached [OF assms Some] Some show ?thesis
    by (intro exI [of _ v]) (elim exE conjE, simp)
qed

lemma GetEigenvector2_fresh:
  assumes "GetEigenvector2 E i vr vc w = Inr u" and "VR w = None" and "VC w = None"
  shows "VR u = Some (next_addr w) \<and> VC u = Some (Suc (next_addr w)) \<and>
         vectors u (next_addr w) =
           Some \<lparr>layout = operators_of E (calls w), array = None\<rparr> \<and>
         vectors u (Suc (next_addr w)) =
           Some \<lparr>layout = operators_of E (calls w), array = None\<rparr> \<and>
         calls u = calls w @
           [EPSGetOperators,
            new_PetscParVector (next_addr w) (operators_of E (calls w)),
            new_PetscParVector (Suc (next_addr w)) (operators_of E (calls w)),
            PlaceArray (next_addr w) vr, PlaceArray (Suc (next_addr w)) vc,
            EPSGetEigenvector i (next_addr w) (Some (Suc (next_addr w))),
            ResetArray (next_addr w), ResetArray (Suc (next_addr w))]"
  using assms
  by (auto simp: GetEigenvector2_def and_then_Inr_iff get_operators_Inr_iff ensure_view_def
        new_PetscParVector_obj_Inr_iff VecPlaceArray_Inr_iff VecResetArray_Inr_iff
        store_through_Inr_iff PCHKERRQ_Inr_iff Let_def)

lemma GetEigenvector2_detached:
  assumes "GetEigenvector2 E i vr vc w = Inr u"
  shows "\<exists>r c x y. VR u = Some r \<and> VC u = Some c \<and>
           vectors u r = Some x \<and> array x = None \<and> vectors u c = Some y \<and> array y = None"
proof -
  from assms obtain r c w1 where
    init: "(if VR w = None \<or> VC w = None then
          and_then (get_operators E w) (\<lambda>(pA, w).
          and_then (ensure_view E (VR w) pA w) (\<lambda>(r, w).
          let w = w\<lparr>VR := Some r\<rparr> in
          and_then (ensure_view E (VC w) pA w) (\<lambda>(c, w).
          Inr (r, c, w\<lparr>VC := Some c\<rparr>))))
        else Inr (the (VR w), the (VC w), w)) = Inr (r, c, w1)" and
    rest: "and_then (VecPlaceArray E r vr w1) (\<lambda>w.
     and_then (VecPlaceArray E c vc w) (\<lambda>w.
     and_then (PCHKERRQ E (EPSGetEigenvector i r (Some c)) w) (\<lambda>w'.
     and_then (store_through r (fst (eigenvector_of E (calls w) i)) w') (\<lambda>w'.
     and_then (store_through c (snd (eigenvector_of E (calls w) i)) w') (\<lambda>w.
     and_then (VecResetArray E r w) (\<lambda>w.
     VecResetArray E c w)))))) = Inr u"
    by (auto simp: GetEigenvector2_def and_then_Inr_iff)
  from init have v: "VR w1 = Some r \<and> VC w1 = Some c"
    by (auto simp: and_then_Inr_iff get_operators_Inr_iff ensure_view_def Let_def
          new_PetscParVector_obj_Inr_iff split: if_splits option.splits)
  from rest v show ?thesis
    by (auto simp: and_then_Inr_iff VecPlaceArray_Inr_iff VecResetArray_Inr_iff
          store_through_Inr_iff PCHKERRQ_Inr_iff)
qed

lemma GetEigenvector_result:
  assumes "GetEigenvector E i vr w = Inr w'"
  shows "\<exists>h v. calls w' = h @ [EPSGetEigenvector i v None, ResetArray v] \<and>
           length (fst (eigenvector_of E h i)) \<le> length (mem w vr) \<and>
           mem w' = (mem w)(vr := fst (eigenvector_of E h i) @
                       drop (length (fst (eigenvector_of E h i))) (mem w vr))"
proof (cases "VR w")
  case None
  from GetEigenvector_fresh [OF assms None] show ?thesis
    by (intro exI [of _ "calls w @ [EPSGetOperators,
               new_PetscParVector (next_addr w) (operators_of E (calls w)),
               PlaceArray (next_addr w) vr]"] exI [of _ "next_addr w"]) (elim conjE, simp)
next
  case (Some v)
  from GetEigenvector_cached [OF assms Some] show ?thesis
    by (intro exI [of _ "calls w @ [PlaceArray v vr]"] exI [of _ v]) (elim exE conjE, simp)
qed

lemma two_buffers:
  assumes r1: "GetEigenvector E i b1 w = Inr w1"
    and r2: "GetEigenvector E i b2 w1 = Inr w2"
    and ne: "b1 \<noteq> b2"
    and l1: "calls w1 = h1 @ [EPSGetEigenvector i v1 None, ResetArray v1]"
    and l2: "calls w2 = h2 @ [EPSGetEigenvector i v2 None, ResetArray v2]"
    and same: "fst (eigenvector_of E h1 i) = fst (eigenvector_of E h2 i)"
    and s1: "length (mem w b1) = length (fst (eigenvector_of E h1 i))"
    and s2: "length (mem w b2) = length (fst (eigenvector_of E h1 i))"
  shows "mem w2 b1 = mem w2 b2 \<and> mem w2 b1 = fst (eigenvector_of E h1 i) \<and>
         mem w2 b1 = mem w1 b1"
proof -
  from GetEigenvector_result [OF r1] l1 have
    m1: "mem w1 = (mem w)(b1 := fst (eigenvector_of E h1 i) @
                       drop (length (fst (eigenvector_of E h1 i))) (mem w b1))"
    by auto
  from GetEigenvector_result [OF r2] l2 have
    m2: "mem w2 = (mem w1)(b2 := fst (eigenvector_of E h2 i) @
                       drop (length (fst (eigenvector_of E h2 i))) (mem w1 b2))"
    by auto
  from m1 s1 have a: "mem w1 b1 = fst (eigenvector_of E h1 i)" by simp
  from m1 ne have b: "mem w1 b2 = mem w b2" by simp
  from m2 ne have c: "mem w2 b1 = mem w1 b1" by simp
  from m2 b s2 same have d: "mem w2 b2 = fst (eigenvector_of E h1 i)" by simp
  from a c d show ?thesis by simp
qed

text \<open>
  Claim C8. When \<open>GetEigenvector\<close> returns, in either overload, each view it has used
  exists and has no array placed in it. Two calls for the same index with two different
  arrays of the local size leave the same entries in both arrays, namely the entries the
  engine has stored, provided that the engine stores the same entries at both calls; the
  second call leaves the first array as it was.
\<close>

theorem eigenvector_views_detached:
  "(GetEigenvector E i b1 w = Inr w1 \<longrightarrow>
      (\<exists>v x. VR w1 = Some v \<and> vectors w1 v = Some x \<and> array x = None)) \<and>
   (GetEigenvector2 E i br bc w = Inr u \<longrightarrow>
      (\<exists>r c x y. VR u = Some r \<and> VC u = Some c \<and>
         vectors u r = Some x \<and> array x = None \<and> vectors u c = Some y \<and> array y = None)) \<and>
   (GetEigenvector E i b1 w = Inr w1 \<longrightarrow> GetEigenvector E i b2 w1 = Inr w2 \<longrightarrow> b1 \<noteq> b2 \<longrightarrow>
    calls w1 = h1 @ [EPSGetEigenvector i v1 None, ResetArray v1] \<longrightarrow>
    calls w2 = h2 @ [EPSGetEigenvector i v2 None, ResetArray v2] \<longrightarrow>
    fst (eigenvector_of E h1 i) = fst (eigenvector_of E h2 i) \<longrightarrow>
    length (mem w b1) = length (fst (eigenvector_of E h1 i)) \<longrightarrow>
    length (mem w b2) = length (fst (eigenvector_of E h1 i)) \<longrightarrow>
      mem w2 b1 = mem w2 b2 \<and> mem w2 b1 = fst (eigenvector_of E h1 i) \<and>
      mem w2 b1 = mem w1 b1 \<and>
      (\<exists>v x. VR w2 = Some v \<and> vectors w2 v = Some x \<and> array x = None))"
  using GetEigenvector_detached [of E i b1 w w1] GetEigenvector_detached [of E i b2 w1 w2]
    GetEigenvector2_detached [of E i br bc w u]
    two_buffers [of E i b1 w w1 b2 w2 h1 v1 h2 v2]
  by blast

theorem eigenvector_views_detached_witness:
  "GetEigenvector accepting 0 1 solved = Inr first_retrieval \<and>
   GetEigenvector accepting 0 2 first_retrieval = Inr second_retrieval \<and>
   (1 :: addr) \<noteq> 2 \<and>
   calls first_retrieval =
     (calls solved @ [EPSGetOperators, new_PetscParVector 100 (Some 7), PlaceArray 100 1]) @
     [EPSGetEigenvector 0 100 None, ResetArray 100] \<and>
   calls second_retrieval =
     (calls first_retrieval @ [PlaceArray 100 2]) @
     [EPSGetEigenvector 0 100 None, ResetArray 100] \<and>
   fst (eigenvector_of accepting
          (calls solved @ [EPSGetOperators, new_PetscParVector 100 (Some 7), PlaceArray 100 1])
          0) =
     fst (eigenvector_of accepting (calls first_retrieval @ [PlaceArray 100 2]) 0) \<and>
   length (mem solved 1) = 2 \<and> length (mem solved 2) = 2 \<and>
   mem second_retrieval 1 = [3, 4] \<and> mem second_retrieval 2 = [3, 4] \<and>
   mem first_retrieval 1 = [3, 4] \<and>
   VR first_retrieval = Some 100 \<and>
   vectors first_retrieval 100 = Some \<lparr>layout = Some 7, array = None\<rparr> \<and>
   VR second_retrieval = Some 100 \<and>
   vectors second_retrieval 100 = Some \<lparr>layout = Some 7, array = None\<rparr> \<and>
   GetEigenvector2 accepting 0 1 2 solved = Inr retrieved \<and>
   VR retrieved = Some 100 \<and> VC retrieved = Some 101 \<and>
   vectors retrieved 100 = Some \<lparr>layout = Some 7, array = None\<rparr> \<and>
   vectors retrieved 101 = Some \<lparr>layout = Some 7, array = None\<rparr>"
  using eigenvector_views_detached
      [where E = accepting and i = 0 and ?b1.0 = 1 and ?b2.0 = 2 and w = solved
         and ?w1.0 = first_retrieval and ?w2.0 = second_retrieval
         and br = 1 and bc = 2 and u = retrieved
         and ?h1.0 = "calls solved @
            [EPSGetOperators, new_PetscParVector 100 (Some 7), PlaceArray 100 1]"
         and ?v1.0 = 100
         and ?h2.0 = "calls first_retrieval @ [PlaceArray 100 2]" and ?v2.0 = 100]
  by (simp add: fixture_defs model_defs)

subsection \<open>Views and the registration of operators\<close>

lemma converted_fields [simp]:
  "VR (converted w op) = VR w" "VC (converted w op) = VC w"
  "vectors (converted w op) = vectors w" "operatorset (converted w op) = operatorset w"
  by (cases op; simp add: converted_def allocated_def)+

lemma calls_converted:
  "\<exists>pre. calls (converted w op) = calls w @ pre \<and> length (synthesized pre) = length pre"
  by (cases op) (simp_all add: converted_def allocated_def)

lemma registration_effect:
  assumes "invoke E m w = Inr w1" and "is_registration m" and "operatorset w"
  shows "VR w1 = None \<and> VC w1 = None \<and>
         vectors w1 = without (VC w) (without (VR w) (vectors w)) \<and>
         (\<exists>pre A B. calls w1 =
            calls w @ pre @ deletions (VR w) @ deletions (VC w) @ [EPSSetOperators A B] \<and>
            length (synthesized pre) = length pre)"
proof (cases m)
  case (Call_SetOperator op)
  obtain pre where
    pre: "calls (converted w op) = calls w @ pre" "length (synthesized pre) = length pre"
    using calls_converted [of w op] by blast
  from assms(1) Call_SetOperator have "SetOperator E op w = Inr w1" by simp
  from SetOperator_Inr_eq [OF this] assms(3) pre show ?thesis
    by (simp add: discarded_def)
next
  case (Call_SetOperators op opB)
  obtain pre where
    pre: "calls (converted w op) = calls w @ pre" "length (synthesized pre) = length pre"
    using calls_converted [of w op] by blast
  obtain pre' where
    pre': "calls (converted (converted w op) opB) = calls (converted w op) @ pre'"
      "length (synthesized pre') = length pre'"
    using calls_converted [of "converted w op" opB] by blast
  from assms(1) Call_SetOperators have "SetOperators E op opB w = Inr w1" by simp
  from SetOperators_Inr_eq [OF this] assms(3) pre pre' show ?thesis
    by (simp add: discarded_def)
qed (use assms(2) in simp_all)

lemma invoke_keeps_views:
  assumes "invoke E m w = Inr w'" and "keeps_views m"
  shows "VR w' = VR w \<and> VC w' = VC w"
proof (cases m)
  case (Call_SetTol x)
  with assms(1) show ?thesis by (simp add: SetTol_Inr_iff)
next
  case (Call_SetMaxIter n)
  with assms(1) show ?thesis by (simp add: SetMaxIter_Inr_iff)
next
  case (Call_SetNumModes n)
  with assms(1) show ?thesis by (simp add: SetNumModes_def PCHKERRQ_Inr_iff)
next
  case Call_Solve
  with assms(1) show ?thesis by (auto dest!: Solve_Inr)
next
  case (Call_Customize b)
  with assms(1) show ?thesis by (auto simp: Customize_Inr_iff split: if_splits)
next
  case (Call_GetEigenvalue i)
  with assms(1) show ?thesis by (simp add: query_Inr_iff)
next
  case (Call_GetEigenvalue2 i)
  with assms(1) show ?thesis by (simp add: query_Inr_iff)
next
  case Call_GetNumConverged
  with assms(1) show ?thesis by (simp add: query_Inr_iff)
next
  case (Call_SetWhichEigenpairs which)
  with assms(1) show ?thesis
    by (cases "EPS_which which")
       (auto simp: enumeration_unlisted SetWhichEigenpairs_listed PCHKERRQ_Inr_iff)
next
  case (Call_SetTarget x)
  with assms(1) show ?thesis by (simp add: SetTarget_def PCHKERRQ_Inr_iff)
next
  case (Call_SetSpectralTransformation t)
  with assms(1) show ?thesis
    by (cases "ST_type t")
       (auto dest: transformation_unlisted
          simp: SetSpectralTransformation_listed and_then_Inr_iff PCHKERRQ_Inr_iff)
qed (use assms(2) in simp_all)

lemma run_keeps_views:
  "run E ms w = Inr w' \<Longrightarrow> \<forall>m\<in>set ms. keeps_views m \<Longrightarrow> VR w' = VR w \<and> VC w' = VC w"
proof (induction ms arbitrary: w)
  case Nil
  then show ?case by simp
next
  case (Cons m ms)
  from Cons.prems(1) obtain w1 where
    m: "invoke E m w = Inr w1" and ms: "run E ms w1 = Inr w'"
    by (auto simp: and_then_Inr_iff)
  from Cons.prems(2) have k: "keeps_views m" "\<forall>m\<in>set ms. keeps_views m" by simp_all
  from invoke_keeps_views [OF m k(1)] Cons.IH [OF ms k(2)] show ?case by simp
qed

text \<open>
  Claim C5. When operators are registered on a solver that has operators already, both
  views are deleted and both pointers are null when the call returns; in the log the two
  deletions stand before the \<open>EPSSetOperators\<close> call, after the constructor calls of the
  conversion. The pointers stay null under every method that is neither a registration
  nor a retrieval. The next \<open>GetEigenvector\<close>, in either overload, therefore asks the
  engine for its operator and constructs its views anew, with the layout of that
  operator.
\<close>

theorem registration_discards_views:
  "(operatorset w \<longrightarrow> is_registration m \<longrightarrow> invoke E m w = Inr w1 \<longrightarrow>
      VR w1 = None \<and> VC w1 = None \<and>
      vectors w1 = without (VC w) (without (VR w) (vectors w)) \<and>
      (\<exists>pre A B. calls w1 =
         calls w @ pre @ deletions (VR w) @ deletions (VC w) @ [EPSSetOperators A B] \<and>
         length (synthesized pre) = length pre)) \<and>
   (VR w1 = None \<longrightarrow> VC w1 = None \<longrightarrow> (\<forall>m\<in>set ms. keeps_views m) \<longrightarrow>
    run E ms w1 = Inr w2 \<longrightarrow>
      VR w2 = None \<and> VC w2 = None) \<and>
   (VR w2 = None \<longrightarrow> GetEigenvector E i vr w2 = Inr w3 \<longrightarrow>
      VR w3 = Some (next_addr w2) \<and>
      vectors w3 (next_addr w2) =
        Some \<lparr>layout = operators_of E (calls w2), array = None\<rparr> \<and>
      take 2 (drop (length (calls w2)) (calls w3)) =
        [EPSGetOperators, new_PetscParVector (next_addr w2) (operators_of E (calls w2))]) \<and>
   (VR w2 = None \<longrightarrow> VC w2 = None \<longrightarrow> GetEigenvector2 E i vr vc w2 = Inr w4 \<longrightarrow>
      VR w4 = Some (next_addr w2) \<and> VC w4 = Some (Suc (next_addr w2)) \<and>
      vectors w4 (next_addr w2) =
        Some \<lparr>layout = operators_of E (calls w2), array = None\<rparr> \<and>
      vectors w4 (Suc (next_addr w2)) =
        Some \<lparr>layout = operators_of E (calls w2), array = None\<rparr> \<and>
      take 3 (drop (length (calls w2)) (calls w4)) =
        [EPSGetOperators, new_PetscParVector (next_addr w2) (operators_of E (calls w2)),
         new_PetscParVector (Suc (next_addr w2)) (operators_of E (calls w2))])"
proof -
  have a: "operatorset w \<longrightarrow> is_registration m \<longrightarrow> invoke E m w = Inr w1 \<longrightarrow>
      VR w1 = None \<and> VC w1 = None \<and>
      vectors w1 = without (VC w) (without (VR w) (vectors w)) \<and>
      (\<exists>pre A B. calls w1 =
         calls w @ pre @ deletions (VR w) @ deletions (VC w) @ [EPSSetOperators A B] \<and>
         length (synthesized pre) = length pre)"
    using registration_effect [of E m w w1] by blast
  have b: "VR w1 = None \<longrightarrow> VC w1 = None \<longrightarrow> (\<forall>m\<in>set ms. keeps_views m) \<longrightarrow>
      run E ms w1 = Inr w2 \<longrightarrow> VR w2 = None \<and> VC w2 = None"
    using run_keeps_views [of E ms w1 w2] by auto
  have c: "VR w2 = None \<longrightarrow> GetEigenvector E i vr w2 = Inr w3 \<longrightarrow>
      VR w3 = Some (next_addr w2) \<and>
      vectors w3 (next_addr w2) =
        Some \<lparr>layout = operators_of E (calls w2), array = None\<rparr> \<and>
      take 2 (drop (length (calls w2)) (calls w3)) =
        [EPSGetOperators, new_PetscParVector (next_addr w2) (operators_of E (calls w2))]"
    using GetEigenvector_fresh [of E i vr w2 w3] by auto
  have d: "VR w2 = None \<longrightarrow> VC w2 = None \<longrightarrow> GetEigenvector2 E i vr vc w2 = Inr w4 \<longrightarrow>
      VR w4 = Some (next_addr w2) \<and> VC w4 = Some (Suc (next_addr w2)) \<and>
      vectors w4 (next_addr w2) =
        Some \<lparr>layout = operators_of E (calls w2), array = None\<rparr> \<and>
      vectors w4 (Suc (next_addr w2)) =
        Some \<lparr>layout = operators_of E (calls w2), array = None\<rparr> \<and>
      take 3 (drop (length (calls w2)) (calls w4)) =
        [EPSGetOperators, new_PetscParVector (next_addr w2) (operators_of E (calls w2)),
         new_PetscParVector (Suc (next_addr w2)) (operators_of E (calls w2))]"
    using GetEigenvector2_fresh [of E i vr vc w2 w4] by auto
  from a b c d show ?thesis by blast
qed

theorem registration_discards_views_witness:
  "operatorset retrieved \<and> VR retrieved = Some 100 \<and> VC retrieved = Some 101 \<and>
   is_registration (Call_SetOperator (HypreParMatrix 8)) \<and>
   invoke accepting (Call_SetOperator (HypreParMatrix 8)) retrieved = Inr reregistered \<and>
   VR reregistered = None \<and> VC reregistered = None \<and>
   vectors reregistered 100 = None \<and> vectors reregistered 101 = None \<and>
   calls reregistered =
     calls retrieved @
     [new_PetscParMatrix_Hypre 102 8 PETSC_MATAIJ, delete_PetscParVector 100,
      delete_PetscParVector 101, EPSSetOperators 102 None] \<and>
   keeps_views (Call_SetTol 5) \<and> keeps_views Call_Solve \<and>
   run accepting [Call_SetTol 5, Call_Solve] reregistered = Inr resolved \<and>
   VR resolved = None \<and> VC resolved = None \<and>
   GetEigenvector accepting 0 1 resolved =
     Inr (returned (GetEigenvector accepting 0 1 resolved)) \<and>
   VR (returned (GetEigenvector accepting 0 1 resolved)) = Some 103 \<and>
   vectors (returned (GetEigenvector accepting 0 1 resolved)) 103 =
     Some \<lparr>layout = Some 102, array = None\<rparr> \<and>
   GetEigenvector2 accepting 0 1 2 resolved =
     Inr (returned (GetEigenvector2 accepting 0 1 2 resolved)) \<and>
   VR (returned (GetEigenvector2 accepting 0 1 2 resolved)) = Some 103 \<and>
   VC (returned (GetEigenvector2 accepting 0 1 2 resolved)) = Some 104 \<and>
   vectors (returned (GetEigenvector2 accepting 0 1 2 resolved)) 103 =
     Some \<lparr>layout = Some 102, array = None\<rparr> \<and>
   vectors (returned (GetEigenvector2 accepting 0 1 2 resolved)) 104 =
     Some \<lparr>layout = Some 102, array = None\<rparr>"
  using registration_discards_views
      [where E = accepting and w = retrieved and m = "Call_SetOperator (HypreParMatrix 8)"
         and ?w1.0 = reregistered and ms = "[Call_SetTol 5, Call_Solve]"
         and ?w2.0 = resolved and i = 0 and vr = 1 and vc = 2
         and ?w3.0 = "returned (GetEigenvector accepting 0 1 resolved)"
         and ?w4.0 = "returned (GetEigenvector2 accepting 0 1 2 resolved)"]
  by (simp add: fixture_defs model_defs)

subsection \<open>Destruction\<close>

text \<open>
  On claim C2. A solver is constructed, given an operator, solved, asked for an
  eigenvector with its real and imaginary part, and destroyed. The destructor releases
  the engine context, and leaves both views 100 and 101 allocated: no view is deleted.
\<close>

theorem destructor_leaves_views:
  "map_sum id (\<lambda>w. (eps w, VR w, VC w, dom (vectors w), last (calls w)))
     (and_then
        (run accepting
           [Call_SetOperator (PetscParMatrix 7), Call_Solve, Call_GetEigenvector2 0 1 2]
           constructed)
        (destructor accepting)) =
     Inr (None, Some 100, Some 101, {100, 101}, EPSDestroy)"
  by (simp add: model_defs insert_commute)

end
